theory Spec2Isabelle
  imports
    Complex_Main
    "HOL-Library.Char_ord"
    "HOL-Library.List_Lexorder"
    "HOL-Library.Product_Lexorder"
    "HOL-Library.Multiset"
begin

section \<open>Data model\<close>

text \<open>
  The pipeline passes layout objects around as Python dictionaries. A layout object has
  the keys \<open>page_index\<close> (an unbounded integer), \<open>label\<close> and \<open>col\<close> (Python strings; a
  column that is neither \<open>''LEFT''\<close> nor \<open>''RIGHT''\<close> is any other string), the pixel
  coordinates \<open>y1\<close>, \<open>y2\<close> and the rectangle \<open>coords = (x1, y1, x2, y2)\<close>.
  Pixel coordinates and scale factors are numbers the source compares, adds, multiplies
  and truncates with \<open>int(...)\<close>; they are modelled as rationals, with exact arithmetic.
\<close>

type_synonym rect = "rat \<times> rat \<times> rat \<times> rat"

record layout_object =
  page_index :: int
  label :: string
  col :: string
  y1 :: rat
  y2 :: rat
  coords :: rect

text \<open>
  A redaction instruction is the dictionary \<open>{"start": ..., "end": ...}\<close>; either value
  may be Python's \<open>None\<close>, which is \<open>None\<close> here as well.
\<close>

record instruction =
  i_start :: "layout_object option"
  i_end :: "layout_object option"

text \<open>
  An opinion span is \<open>{"n", "start", "end", "reason"}\<close>; the key \<open>case_name\<close> is added by
  \<open>_assign_case_names\<close> and is absent (\<open>None\<close>) before.
\<close>

record opinion_span =
  sp_n :: int
  sp_start :: "layout_object option"
  sp_end :: "layout_object option"
  sp_reason :: string
  sp_case_name :: "string option"

datatype error = ZeroDivisionError | TypeError | AttributeError

section \<open>Phase 2: the opinion planner (planner.py)\<close>

datatype OpinionState = WAIT_CAPTION | TRACKING | LOCKED_UNTIL_KEY

text \<open>
  The local variables of \<open>plan\<close> that the state machine loop reads and writes, together
  with the planner's instance counter \<open>opinion_idx\<close>.
\<close>

record planner_state =
  current_state :: OpinionState
  active_start_node :: "layout_object option"
  candidate_end_node :: "layout_object option"
  opinion_start_caption :: "layout_object option"
  redaction_instructions :: "instruction list"
  opinion_spans :: "opinion_span list"
  opinion_idx :: int

text \<open>
  \<open>_record_opinion_span\<close>: returns without any effect when \<open>start\<close> or \<open>end\<close> is falsy
  (an object dictionary always has keys, so only \<open>None\<close> is falsy); otherwise increments
  the counter and appends the span.
\<close>

definition record_opinion_span ::
  "opinion_span list \<times> int \<Rightarrow> layout_object option \<Rightarrow> layout_object option \<Rightarrow> string
    \<Rightarrow> opinion_span list \<times> int" where
  "record_opinion_span acc start_obj end_obj reason =
     (case acc of (spans, idx) \<Rightarrow>
        if start_obj = None \<or> end_obj = None then (spans, idx)
        else (spans @ [\<lparr>sp_n = idx + 1, sp_start = start_obj, sp_end = end_obj,
                         sp_reason = reason, sp_case_name = None\<rparr>], idx + 1))"

text \<open>One iteration of the state machine loop of \<open>plan\<close>, in the order of the source.\<close>

definition plan_step :: "planner_state \<Rightarrow> layout_object \<Rightarrow> planner_state" where
  "plan_step st obj =
     (if label obj \<notin> set [''caption'', ''line'', ''headmatter'', ''Key''] then st
      else if current_state st = LOCKED_UNTIL_KEY then
        (if label obj = ''Key'' then
           (case record_opinion_span (opinion_spans st, opinion_idx st)
                   (opinion_start_caption st) (Some obj) ''caption->Key'' of
              (spans, idx) \<Rightarrow>
                st\<lparr>opinion_spans := spans, opinion_idx := idx,
                   opinion_start_caption := None, current_state := WAIT_CAPTION\<rparr>)
         else st)
      else if current_state st = WAIT_CAPTION then
        (if label obj = ''caption'' then
           st\<lparr>active_start_node := Some obj, opinion_start_caption := Some obj,
              current_state := TRACKING\<rparr>
         else st)
      else if current_state st = TRACKING then
        (if label obj = ''line'' then
           st\<lparr>redaction_instructions := redaction_instructions st @
                  [\<lparr>i_start = active_start_node st, i_end = Some obj\<rparr>],
              current_state := LOCKED_UNTIL_KEY\<rparr>
         else if label obj = ''headmatter'' then
           (if candidate_end_node st = None then st\<lparr>candidate_end_node := Some obj\<rparr>
            else st)
         else if label obj = ''Key'' then
           (case record_opinion_span (opinion_spans st, opinion_idx st)
                   (opinion_start_caption st) (Some obj) ''caption->Key'' of
              (spans, idx) \<Rightarrow>
                st\<lparr>opinion_spans := spans, opinion_idx := idx,
                   redaction_instructions :=
                     (if candidate_end_node st \<noteq> None
                      then redaction_instructions st @
                             [\<lparr>i_start = active_start_node st,
                               i_end = candidate_end_node st\<rparr>]
                      else redaction_instructions st),
                   current_state := WAIT_CAPTION,
                   active_start_node := None,
                   candidate_end_node := None,
                   opinion_start_caption := None\<rparr>)
         else st)
      else st)"

definition run_machine :: "planner_state \<Rightarrow> layout_object list \<Rightarrow> planner_state" where
  "run_machine st objs = fold (\<lambda>obj s. plan_step s obj) objs st"

text \<open>The state at the top of \<open>plan\<close>; \<open>idx\<close> is the value of \<open>self.opinion_idx\<close> on entry.\<close>

definition init_state :: "int \<Rightarrow> planner_state" where
  "init_state idx =
     \<lparr>current_state = WAIT_CAPTION, active_start_node = None, candidate_end_node = None,
      opinion_start_caption = None, redaction_instructions = [], opinion_spans = [],
      opinion_idx = idx\<rparr>"

text \<open>
  \<open>sorted(global_objects, key=lambda o: (o["page_index"], o["col"], o["y1"]))\<close>: a stable
  sort on the tuple, strings compared lexicographically by code point.
\<close>

definition object_key :: "layout_object \<Rightarrow> int \<times> string \<times> rat" where
  "object_key obj = (page_index obj, col obj, y1 obj)"

definition sort_objects :: "layout_object list \<Rightarrow> layout_object list" where
  "sort_objects objs = sort_key object_key objs"

text \<open>The header and footer collection loop of \<open>plan\<close>.\<close>

definition collect_step ::
  "layout_object \<Rightarrow> (int \<rightharpoonup> rat) \<times> (int \<rightharpoonup> rat) \<Rightarrow> (int \<rightharpoonup> rat) \<times> (int \<rightharpoonup> rat)" where
  "collect_step obj acc =
     (case acc of (page_headers, page_footers) \<Rightarrow>
        if label obj = ''header'' then (page_headers(page_index obj \<mapsto> y2 obj), page_footers)
        else if label obj = ''footnotes'' then
          (page_headers,
           page_footers(page_index obj \<mapsto>
             (case page_footers (page_index obj) of
                None \<Rightarrow> y1 obj
              | Some v \<Rightarrow> min v (y1 obj))))
        else (page_headers, page_footers))"

definition collect_headers_footers ::
  "layout_object list \<Rightarrow> (int \<rightharpoonup> rat) \<times> (int \<rightharpoonup> rat)" where
  "collect_headers_footers objs = fold collect_step objs (Map.empty, Map.empty)"

subsection \<open>Case names\<close>

text \<open>Python's \<open>str\<close> of a natural number, most significant digit first.\<close>

definition digit_char :: "nat \<Rightarrow> char" where
  "digit_char d = ''0123456789'' ! d"

fun str_nat :: "nat \<Rightarrow> string" where
  "str_nat n = (if n < 10 then [digit_char n] else str_nat (n div 10) @ [digit_char (n mod 10)])"

declare str_nat.simps [simp del]

definition zfill :: "nat \<Rightarrow> string \<Rightarrow> string" where
  "zfill w s = replicate (w - length s) (CHR ''0'') @ s"

text \<open>
  The format specification \<open>0wd\<close> of an f-string: sign-aware zero padding to width \<open>w\<close>.
\<close>

definition format_0d :: "nat \<Rightarrow> int \<Rightarrow> string" where
  "format_0d w i =
     (if i < 0 then CHR ''-'' # zfill (w - 1) (str_nat (nat (- i)))
      else zfill w (str_nat (nat i)))"

definition case_name_of :: "int \<Rightarrow> int \<Rightarrow> string" where
  "case_name_of first_page counter = format_0d 4 first_page @ ''-'' @ format_0d 2 counter"

definition COL_ORDER :: "string \<Rightarrow> int" where
  "COL_ORDER c = (if c = ''LEFT'' then 0 else if c = ''RIGHT'' then 1 else 99)"

text \<open>
  \<open>sort_key\<close> of \<open>_assign_case_names\<close>, on a span whose start is present. The defaults of
  the \<open>.get\<close> calls are never used: an object has all three keys.
\<close>

definition span_key :: "layout_object \<Rightarrow> int \<times> int \<times> rat" where
  "span_key s = (page_index s, COL_ORDER (col s), y1 s)"

definition span_sort_key :: "opinion_span \<Rightarrow> int \<times> int \<times> rat" where
  "span_sort_key sp = span_key (the (sp_start sp))"

definition span_first_page :: "int \<Rightarrow> opinion_span \<Rightarrow> int" where
  "span_first_page page_start sp = page_index (the (sp_start sp)) + page_start"

text \<open>The naming loop: \<open>page_counter\<close> is the dictionary of counters.\<close>

fun name_spans :: "int \<Rightarrow> (int \<rightharpoonup> int) \<Rightarrow> opinion_span list \<Rightarrow> opinion_span list" where
  "name_spans page_start page_counter [] = []"
| "name_spans page_start page_counter (sp # sps) =
     (let first_page = span_first_page page_start sp;
          counter = (case page_counter first_page of None \<Rightarrow> 0 | Some c \<Rightarrow> c) + 1
      in sp\<lparr>sp_case_name := Some (case_name_of first_page counter)\<rparr>
           # name_spans page_start (page_counter(first_page \<mapsto> counter)) sps)"

text \<open>
  \<open>_assign_case_names\<close> sorts the list in place and then names the spans. The sort
  computes the key of every span first; on a span whose start is \<open>None\<close> that is
  \<open>None.get(...)\<close>, an \<open>AttributeError\<close>.
\<close>

definition assign_case_names :: "opinion_span list \<Rightarrow> int \<Rightarrow> error + opinion_span list" where
  "assign_case_names spans page_start =
     (if spans = [] then Inr []
      else if list_ex (\<lambda>sp. sp_start sp = None) spans then Inl AttributeError
      else Inr (name_spans page_start Map.empty (sort_key span_sort_key spans)))"

text \<open>
  \<open>plan\<close>. The overlap filter \<open>BoxFilter.filter_overlapping_boxes\<close> is an external
  utility and is the parameter \<open>overlap_filter\<close>. The result is the tuple the source
  returns, with the planner's counter \<open>opinion_idx\<close> after the call.
\<close>

definition plan ::
  "(layout_object list \<Rightarrow> layout_object list) \<Rightarrow> int \<Rightarrow> layout_object list \<Rightarrow> int
    \<Rightarrow> error + (instruction list \<times> opinion_span list \<times> (int \<rightharpoonup> rat) \<times> (int \<rightharpoonup> rat) \<times> int)" where
  "plan overlap_filter idx global_objects first_page =
     (let objs = sort_objects (overlap_filter global_objects);
          (page_headers, page_footers) = collect_headers_footers objs;
          st = run_machine (init_state idx) objs
      in case assign_case_names (opinion_spans st) first_page of
           Inl e \<Rightarrow> Inl e
         | Inr spans \<Rightarrow>
             Inr (redaction_instructions st, spans, page_headers, page_footers,
                  opinion_idx st))"

section \<open>Phase 3: the redaction geometry engine (redactor.py)\<close>

text \<open>The fields of \<open>RedactionConfig\<close> that the modelled code reads.\<close>

record config =
  dpi :: int
  start_offset :: int
  end_offset :: int
  redaction_fill :: "rat \<times> rat \<times> rat"
  mask_color :: "rat \<times> rat \<times> rat"

definition default_config :: config where
  "default_config =
     \<lparr>dpi = 200, start_offset = 0, end_offset = 0,
      redaction_fill = (1 / 5, 1 / 5, 1 / 5), mask_color = (1, 1, 1)\<rparr>"

text \<open>
  What a page of the document accumulates. \<open>TextWindow\<close> is a window handed to the
  external line-level redactor (\<open>redact_text_window\<close>), \<open>RedactAnnot\<close> a rectangle
  registered with \<open>add_redact_annot\<close> and its fill. \<open>apply_redactions\<close> burns the pending
  regions in; the number of calls is kept so that a call is visible on the page.
\<close>

datatype region = TextWindow rect | RedactAnnot rect "rat \<times> rat \<times> rat"

record page_state =
  pending :: "region list"
  burnt :: "region list"
  apply_calls :: nat

definition apply_redactions :: "page_state \<Rightarrow> page_state" where
  "apply_redactions pg =
     pg\<lparr>burnt := burnt pg @ pending pg, pending := [], apply_calls := Suc (apply_calls pg)\<rparr>"

text \<open>Python's \<open>int(x)\<close> on a number: truncation towards zero.\<close>

definition py_int :: "rat \<Rightarrow> int" where
  "py_int x = (if 0 \<le> x then \<lfloor>x\<rfloor> else \<lceil>x\<rceil>)"

text \<open>
  The per-page values that \<open>_apply_body_redactions\<close> computes and passes to every
  \<open>_apply_instruction\<close> call, where the nested \<open>do_column_box\<close> reads them.
\<close>

record geometry =
  ceiling_y :: rat
  limit_bottom_left :: rat
  limit_bottom_right :: rat
  LEFT_X1 :: rat
  LEFT_X2 :: rat
  RIGHT_X1 :: rat
  RIGHT_X2 :: rat
  scale_x :: rat
  scale_y :: rat

text \<open>\<open>do_column_box\<close>: the only guard is on the height.\<close>

definition do_column_box :: "geometry \<Rightarrow> rat \<Rightarrow> rat \<Rightarrow> bool \<Rightarrow> region list" where
  "do_column_box g y_top_px y_bottom_px is_left =
     (let y_top = py_int (max (ceiling_y g) y_top_px);
          max_y_px = (if is_left then limit_bottom_left g else limit_bottom_right g);
          y_bottom = py_int (min max_y_px y_bottom_px)
      in if y_bottom \<le> y_top then []
         else
           (let xx1_px = (if is_left then LEFT_X1 g else RIGHT_X1 g);
                xx2_px = (if is_left then LEFT_X2 g else RIGHT_X2 g)
            in [TextWindow (xx1_px * scale_x g, of_int y_top * scale_y g,
                            xx2_px * scale_x g, of_int y_bottom * scale_y g)]))"

text \<open>
  \<open>_apply_instruction\<close>. Subscripting \<open>None\<close> raises \<open>TypeError\<close>; the page test reads the
  end first and short-circuits, so the start is only read when the end is not on an
  earlier page.
\<close>

definition apply_instruction ::
  "config \<Rightarrow> geometry \<Rightarrow> instruction \<Rightarrow> int \<Rightarrow> error + region list" where
  "apply_instruction cfg g instr page_idx =
     (case i_end instr of
        None \<Rightarrow> Inl TypeError
      | Some end_obj \<Rightarrow>
          if page_index end_obj < page_idx then Inr []
          else
            (case i_start instr of
               None \<Rightarrow> Inl TypeError
             | Some start_obj \<Rightarrow>
                 if page_index start_obj > page_idx then Inr []
                 else
                   (let s_col = (col start_obj = ''LEFT'');
                        e_col = (col end_obj = ''LEFT'')
                    in if page_index start_obj = page_idx \<and> page_index end_obj = page_idx then
                         (let sy = y2 start_obj + of_int (start_offset cfg);
                              ey = y1 end_obj + of_int (end_offset cfg)
                          in if s_col = e_col then Inr (do_column_box g sy ey s_col)
                             else Inr (do_column_box g sy 9999 True @ do_column_box g 0 ey False))
                       else if page_index start_obj < page_idx \<and> page_index end_obj = page_idx then
                         (let ey = y1 end_obj + of_int (end_offset cfg)
                          in if e_col then Inr (do_column_box g 0 ey True)
                             else Inr (do_column_box g 0 9999 True @ do_column_box g 0 ey False))
                       else if page_index start_obj = page_idx \<and> page_index end_obj > page_idx then
                         (let sy = y2 start_obj + of_int (start_offset cfg)
                          in if s_col
                             then Inr (do_column_box g sy 9999 True @ do_column_box g 0 9999 False)
                             else Inr (do_column_box g sy 9999 False))
                       else if page_index start_obj < page_idx \<and> page_index end_obj > page_idx then
                         Inr (do_column_box g 0 9999 True @ do_column_box g 0 9999 False)
                       else Inr [])))"

text \<open>The footnote loop of \<open>_apply_body_redactions\<close>, on the pair of bottom limits.\<close>

definition footnote_step :: "layout_object \<Rightarrow> rat \<times> rat \<Rightarrow> rat \<times> rat" where
  "footnote_step obj acc =
     (case acc of (lim_left, lim_right) \<Rightarrow>
        if label obj = ''footnotes'' then
          (if col obj = ''LEFT'' then (min lim_left (y1 obj), lim_right)
           else if col obj = ''RIGHT'' then (lim_left, min lim_right (y1 obj))
           else (min lim_left (y1 obj), min lim_right (y1 obj)))
        else (lim_left, lim_right))"

definition footnote_limits :: "rat \<Rightarrow> layout_object list \<Rightarrow> rat \<times> rat" where
  "footnote_limits img_h objs_on_page = fold footnote_step objs_on_page (img_h - 60, img_h - 60)"

text \<open>
  The header ceiling: \<open>max([...])\<close> is only evaluated on a non-empty list, and is a left
  fold of \<open>max\<close> from the first element.
\<close>

definition header_ceiling :: "rat \<Rightarrow> layout_object list \<Rightarrow> rat" where
  "header_ceiling img_h objs_on_page =
     (case filter (\<lambda>obj. label obj = ''header'') objs_on_page of
        [] \<Rightarrow> 90
      | h # hs \<Rightarrow>
          (let max_header_bottom = fold max (map y2 hs) (y2 h)
           in if max_header_bottom < img_h / 3 then max 90 (max_header_bottom + 5) else 90))"

text \<open>
  The column bounds: the page's entry of \<open>page_columns_px\<close>, or the fallback tuple, which
  the source computes from the image height.
\<close>

type_synonym columns = "rat \<times> rat \<times> rat \<times> rat \<times> rat"

definition column_bounds :: "(int \<rightharpoonup> columns) \<Rightarrow> int \<Rightarrow> rat \<Rightarrow> columns" where
  "column_bounds page_columns_px page_idx img_h =
     (case page_columns_px page_idx of
        Some c \<Rightarrow> c
      | None \<Rightarrow>
          (30, of_int (py_int (img_h / 2 - 5)), of_int (py_int (img_h / 2 + 5)),
           of_int (py_int (img_h - 30)), of_int (py_int (img_h / 2))))"

definition page_geometry ::
  "int \<Rightarrow> layout_object list \<Rightarrow> rat \<Rightarrow> (int \<rightharpoonup> columns) \<Rightarrow> rat \<Rightarrow> rat \<Rightarrow> geometry" where
  "page_geometry page_idx objs_on_page img_h page_columns_px sx sy =
     (case footnote_limits img_h objs_on_page of (lim_left, lim_right) \<Rightarrow>
      case column_bounds page_columns_px page_idx img_h of (lx1, lx2, rx1, rx2, split_x) \<Rightarrow>
        \<lparr>ceiling_y = header_ceiling img_h objs_on_page,
         limit_bottom_left = lim_left, limit_bottom_right = lim_right,
         LEFT_X1 = lx1, LEFT_X2 = lx2, RIGHT_X1 = rx1, RIGHT_X2 = rx2,
         scale_x = sx, scale_y = sy\<rparr>)"

fun apply_instructions ::
  "config \<Rightarrow> geometry \<Rightarrow> instruction list \<Rightarrow> int \<Rightarrow> error + region list" where
  "apply_instructions cfg g [] page_idx = Inr []"
| "apply_instructions cfg g (instr # instrs) page_idx =
     (case apply_instruction cfg g instr page_idx of
        Inl e \<Rightarrow> Inl e
      | Inr rs \<Rightarrow>
          (case apply_instructions cfg g instrs page_idx of
             Inl e \<Rightarrow> Inl e
           | Inr rs' \<Rightarrow> Inr (rs @ rs')))"

definition apply_body_redactions ::
  "config \<Rightarrow> instruction list \<Rightarrow> int \<Rightarrow> layout_object list \<Rightarrow> rat \<Rightarrow> (int \<rightharpoonup> columns)
    \<Rightarrow> rat \<Rightarrow> rat \<Rightarrow> error + region list" where
  "apply_body_redactions cfg instructions page_idx objs_on_page img_h page_columns_px sx sy =
     apply_instructions cfg
       (page_geometry page_idx objs_on_page img_h page_columns_px sx sy) instructions page_idx"

text \<open>\<open>_add_redaction_box\<close>, on integer pixel corners, with its fixed fill.\<close>

definition add_redaction_box :: "int \<Rightarrow> int \<Rightarrow> int \<Rightarrow> int \<Rightarrow> rat \<Rightarrow> rat \<Rightarrow> region list" where
  "add_redaction_box bx1 by1 bx2 by2 sx sy =
     (if by2 \<le> by1 \<or> bx2 \<le> bx1 then []
      else [RedactAnnot (of_int bx1 * sx, of_int by1 * sy, of_int bx2 * sx, of_int by2 * sy)
              (1 / 5, 1 / 5, 1 / 5)])"

definition int_coords :: "layout_object \<Rightarrow> int \<times> int \<times> int \<times> int" where
  "int_coords obj =
     (case coords obj of (a, b, c, d) \<Rightarrow> (py_int a, py_int b, py_int c, py_int d))"

definition object_box :: "layout_object \<Rightarrow> rat \<Rightarrow> rat \<Rightarrow> region list" where
  "object_box obj sx sy =
     (case int_coords obj of (a, b, c, d) \<Rightarrow> add_redaction_box a b c d sx sy)"

text \<open>
  \<open>_apply_object_redactions\<close>. The header-boundary refiner is external; \<open>hdr\<close> is what it
  returns for the page. \<open>header_coord\<close> is the truncated rectangle of the last header
  object of the page.
\<close>

definition apply_object_redactions ::
  "config \<Rightarrow> rect option \<Rightarrow> layout_object list \<Rightarrow> rat \<Rightarrow> rat \<Rightarrow> region list" where
  "apply_object_redactions cfg hdr objs_on_page sx sy =
     (let boxes = concat (map (\<lambda>obj.
                     if label obj \<in> set [''line'', ''Key'', ''brackets'', ''order'']
                     then object_box obj sx sy else []) objs_on_page);
          header_coord = fold (\<lambda>obj hc. if label obj = ''header'' then Some (int_coords obj) else hc)
                           objs_on_page None
      in boxes @
         (case hdr of
            Some (hx0, hy0, hx1, hy1) \<Rightarrow>
              (let ry2 = (case header_coord of
                            Some (a, b, c, d) \<Rightarrow> of_int d * sy
                          | None \<Rightarrow> hy1)
               in [RedactAnnot (hx0, hy0, hx1, max hy1 ry2) (redaction_fill cfg)])
          | None \<Rightarrow>
              (case header_coord of
                 Some (a, b, c, d) \<Rightarrow> add_redaction_box a b c d sx sy
               | None \<Rightarrow> [])))"

text \<open>
  The scale factors of a page, from its entry \<open>(pdf_w, pdf_h, img_w, img_h)\<close> of
  \<open>page_dimensions\<close>; a division by zero raises.
\<close>

type_synonym dimensions = "rat \<times> rat \<times> rat \<times> rat"

definition page_scale :: "dimensions \<Rightarrow> error + rat \<times> rat" where
  "page_scale d =
     (case d of (pdf_w, pdf_h, img_w, img_h) \<Rightarrow>
        if img_w = 0 then Inl ZeroDivisionError
        else if img_h = 0 then Inl ZeroDivisionError
        else Inr (pdf_w / img_w, pdf_h / img_h))"

text \<open>The body of the page loop of \<open>redact\<close>.\<close>

definition redact_page ::
  "config \<Rightarrow> (int \<Rightarrow> rect option) \<Rightarrow> instruction list \<Rightarrow> layout_object list
    \<Rightarrow> (int \<rightharpoonup> dimensions) \<Rightarrow> (int \<rightharpoonup> columns) \<Rightarrow> int \<Rightarrow> page_state \<Rightarrow> error + page_state" where
  "redact_page cfg header_refiner redaction_instructions_in global_objects page_dimensions
       page_columns_px page_idx page_fitz =
     (case page_dimensions page_idx of
        None \<Rightarrow> Inr page_fitz
      | Some d \<Rightarrow>
          (case page_scale d of
             Inl e \<Rightarrow> Inl e
           | Inr (sx, sy) \<Rightarrow>
               (let img_h = snd (snd (snd d));
                    objs_on_page = filter (\<lambda>obj. page_index obj = page_idx) global_objects
                in case apply_body_redactions cfg redaction_instructions_in page_idx objs_on_page
                          img_h page_columns_px sx sy of
                     Inl e \<Rightarrow> Inl e
                   | Inr body \<Rightarrow>
                       Inr (apply_redactions
                              (page_fitz\<lparr>pending := pending page_fitz @ body @
                                  apply_object_redactions cfg (header_refiner page_idx)
                                    objs_on_page sx sy\<rparr>)))))"

fun redact_pages ::
  "config \<Rightarrow> (int \<Rightarrow> rect option) \<Rightarrow> instruction list \<Rightarrow> layout_object list
    \<Rightarrow> (int \<rightharpoonup> dimensions) \<Rightarrow> (int \<rightharpoonup> columns) \<Rightarrow> int \<Rightarrow> page_state list
    \<Rightarrow> error + page_state list" where
  "redact_pages cfg hr instrs objs dims cols page_idx [] = Inr []"
| "redact_pages cfg hr instrs objs dims cols page_idx (pg # pgs) =
     (case redact_page cfg hr instrs objs dims cols page_idx pg of
        Inl e \<Rightarrow> Inl e
      | Inr pg' \<Rightarrow>
          (case redact_pages cfg hr instrs objs dims cols (page_idx + 1) pgs of
             Inl e \<Rightarrow> Inl e
           | Inr pgs' \<Rightarrow> Inr (pg' # pgs')))"

text \<open>
  \<open>redact\<close>, on the pages of the opened document, in the order of \<open>range(len(doc))\<close>.
  Saving the file is left out.
\<close>

definition redact ::
  "config \<Rightarrow> (int \<Rightarrow> rect option) \<Rightarrow> instruction list \<Rightarrow> layout_object list
    \<Rightarrow> (int \<rightharpoonup> dimensions) \<Rightarrow> (int \<rightharpoonup> columns) \<Rightarrow> page_state list \<Rightarrow> error + page_state list" where
  "redact cfg hr instrs objs dims cols doc = redact_pages cfg hr instrs objs dims cols 0 doc"


section \<open>Phase 4: the opinion splitter (extractor.py)\<close>

text \<open>\<open>scale = 72 / self.config.dpi\<close>, computed once in \<open>split_and_mask_opinions\<close>.\<close>

definition splitter_scale :: "config \<Rightarrow> error + rat" where
  "splitter_scale cfg =
     (if dpi cfg = 0 then Inl ZeroDivisionError else Inr (72 / of_int (dpi cfg)))"

text \<open>The nested helpers of \<open>_apply_opinion_masking\<close>; a footer of \<open>0\<close> is falsy.\<close>

definition get_footer_pt :: "(int \<rightharpoonup> rat) \<Rightarrow> rat \<Rightarrow> int \<Rightarrow> rat \<Rightarrow> rat" where
  "get_footer_pt page_footers scale pg_idx page_height_pt =
     (case page_footers pg_idx of
        None \<Rightarrow> page_height_pt
      | Some y_px \<Rightarrow> if y_px = 0 then page_height_pt else min page_height_pt (y_px * scale))"

definition get_header_pt :: "(int \<rightharpoonup> rat) \<Rightarrow> rat \<Rightarrow> int \<Rightarrow> rat" where
  "get_header_pt page_headers scale pg_idx =
     max 0 ((case page_headers pg_idx of None \<Rightarrow> 0 | Some y_px \<Rightarrow> y_px) * scale)"

definition safe_redact :: "config \<Rightarrow> rect \<Rightarrow> region list" where
  "safe_redact cfg r =
     (case r of (rx0, ry0, rx1, ry1) \<Rightarrow>
        if ry1 > ry0 \<and> rx1 > rx0 then [RedactAnnot r (mask_color cfg)] else [])"

definition get_split_pt :: "(int \<rightharpoonup> columns) \<Rightarrow> rat \<Rightarrow> int \<Rightarrow> rat \<Rightarrow> rat" where
  "get_split_pt page_columns_px scale pg_idx page_width_pt =
     (case page_columns_px pg_idx of
        Some (lx1, lx2, rx1, rx2, split_x_px) \<Rightarrow> split_x_px * scale
      | None \<Rightarrow> page_width_pt / 2)"

text \<open>
  \<open>_apply_opinion_masking\<close>: the masks registered on the first and on the last page of
  the extracted document, whose sizes in points are \<open>(W_start, H_start)\<close> and
  \<open>(W_end, H_end)\<close>.
\<close>

definition apply_opinion_masking ::
  "config \<Rightarrow> int \<Rightarrow> int \<Rightarrow> rat \<Rightarrow> rat \<Rightarrow> string \<Rightarrow> string \<Rightarrow> (int \<rightharpoonup> columns)
    \<Rightarrow> (int \<rightharpoonup> rat) \<Rightarrow> (int \<rightharpoonup> rat) \<Rightarrow> rat \<Rightarrow> rat \<times> rat \<Rightarrow> rat \<times> rat
    \<Rightarrow> region list \<times> region list" where
  "apply_opinion_masking cfg start_pg_idx end_pg_idx start_y_px end_y_px start_col end_col
       page_columns_px page_headers page_footers scale start_rect end_rect =
     (case start_rect of (W_start, H_start) \<Rightarrow>
      case end_rect of (W_end, H_end) \<Rightarrow>
        (let split_start = get_split_pt page_columns_px scale start_pg_idx W_start;
             sy_pt = start_y_px * scale;
             hy_start = get_header_pt page_headers scale start_pg_idx + 2;
             fy_start = get_footer_pt page_footers scale start_pg_idx H_start;
             start_masks =
               (if start_col = ''LEFT'' then
                  safe_redact cfg (0, hy_start, split_start, min sy_pt fy_start) @
                  safe_redact cfg (split_start, hy_start, W_start, fy_start)
                else if start_col = ''RIGHT'' then
                  safe_redact cfg (0, hy_start, split_start, fy_start) @
                  safe_redact cfg (split_start, hy_start, W_start, min sy_pt fy_start)
                else []);
             split_end = get_split_pt page_columns_px scale end_pg_idx W_end;
             ey_pt = end_y_px * scale;
             hy_end = get_header_pt page_headers scale end_pg_idx + 2;
             fy_end = get_footer_pt page_footers scale end_pg_idx H_end;
             end_masks =
               (if end_col = ''LEFT'' then
                  safe_redact cfg (0, ey_pt, split_end, fy_end) @
                  safe_redact cfg (split_end, hy_end, W_end, fy_end)
                else if end_col = ''RIGHT'' then
                  safe_redact cfg (split_end, ey_pt, W_end, fy_end)
                else [])
         in (start_masks, end_masks)))"

text \<open>
  One iteration of the loop of \<open>split_and_mask_opinions\<close>: the name of the output file,
  the page range copied, and the masks of its first and last page. \<open>page_rect\<close> gives the
  size in points of a page of the source document.
\<close>

record masked_opinion =
  mo_case_name :: string
  mo_from_page :: int
  mo_to_page :: int
  mo_start_masks :: "region list"
  mo_end_masks :: "region list"

definition mask_opinion ::
  "config \<Rightarrow> rat \<Rightarrow> (int \<Rightarrow> rat \<times> rat) \<Rightarrow> (int \<rightharpoonup> columns) \<Rightarrow> (int \<rightharpoonup> rat) \<Rightarrow> (int \<rightharpoonup> rat)
    \<Rightarrow> opinion_span \<Rightarrow> error + masked_opinion" where
  "mask_opinion cfg scale page_rect page_columns_px page_headers page_footers item =
     (case sp_start item of
        None \<Rightarrow> Inl TypeError
      | Some start_obj \<Rightarrow>
          (case sp_end item of
             None \<Rightarrow> Inl TypeError
           | Some end_obj \<Rightarrow>
               (let start_pg_idx = page_index start_obj;
                    end_pg_idx = page_index end_obj;
                    case_name = (case sp_case_name item of
                                   Some nm \<Rightarrow> nm
                                 | None \<Rightarrow> ''opinion_'' @ format_0d 3 (sp_n item));
                    masks = apply_opinion_masking cfg start_pg_idx end_pg_idx
                              (fst (snd (coords start_obj)))
                              (snd (snd (snd (coords end_obj))))
                              (col start_obj) (col end_obj)
                              page_columns_px page_headers page_footers scale
                              (page_rect start_pg_idx) (page_rect end_pg_idx)
                in Inr \<lparr>mo_case_name = case_name, mo_from_page = start_pg_idx,
                        mo_to_page = end_pg_idx, mo_start_masks = fst masks,
                        mo_end_masks = snd masks\<rparr>)))"

fun mask_opinions ::
  "config \<Rightarrow> rat \<Rightarrow> (int \<Rightarrow> rat \<times> rat) \<Rightarrow> (int \<rightharpoonup> columns) \<Rightarrow> (int \<rightharpoonup> rat) \<Rightarrow> (int \<rightharpoonup> rat)
    \<Rightarrow> opinion_span list \<Rightarrow> error + masked_opinion list" where
  "mask_opinions cfg scale page_rect cols hdrs ftrs [] = Inr []"
| "mask_opinions cfg scale page_rect cols hdrs ftrs (item # items) =
     (case mask_opinion cfg scale page_rect cols hdrs ftrs item of
        Inl e \<Rightarrow> Inl e
      | Inr m \<Rightarrow>
          (case mask_opinions cfg scale page_rect cols hdrs ftrs items of
             Inl e \<Rightarrow> Inl e
           | Inr ms \<Rightarrow> Inr (m # ms)))"

definition split_and_mask_opinions ::
  "config \<Rightarrow> (int \<Rightarrow> rat \<times> rat) \<Rightarrow> opinion_span list \<Rightarrow> (int \<rightharpoonup> columns) \<Rightarrow> (int \<rightharpoonup> rat)
    \<Rightarrow> (int \<rightharpoonup> rat) \<Rightarrow> error + masked_opinion list" where
  "split_and_mask_opinions cfg page_rect spans page_columns_px page_headers page_footers =
     (case splitter_scale cfg of
        Inl e \<Rightarrow> Inl e
      | Inr scale \<Rightarrow>
          mask_opinions cfg scale page_rect page_columns_px page_headers page_footers spans)"

section \<open>Auxiliary notions for the proofs\<close>

text \<open>
  The invariant of the state machine: while tracking, both start trackers are set; while
  locked, the caption of the opinion is set; nothing emitted so far lacks a start or an end.
\<close>

definition planner_inv :: "planner_state \<Rightarrow> bool" where
  "planner_inv st \<longleftrightarrow>
     (current_state st = TRACKING \<longrightarrow>
        active_start_node st \<noteq> None \<and> opinion_start_caption st \<noteq> None) \<and>
     (current_state st = LOCKED_UNTIL_KEY \<longrightarrow> opinion_start_caption st \<noteq> None) \<and>
     list_all (\<lambda>i. i_start i \<noteq> None \<and> i_end i \<noteq> None) (redaction_instructions st) \<and>
     list_all (\<lambda>sp. sp_start sp \<noteq> None \<and> sp_end sp \<noteq> None) (opinion_spans st)"

text \<open>What a span holds before it is named.\<close>

definition span_core ::
  "opinion_span \<Rightarrow> int \<times> layout_object option \<times> layout_object option \<times> string" where
  "span_core sp = (sp_n sp, sp_start sp, sp_end sp, sp_reason sp)"

text \<open>Sample objects for the concrete instances.\<close>

definition ex_obj :: "int \<Rightarrow> string \<Rightarrow> string \<Rightarrow> rat \<Rightarrow> rat \<Rightarrow> layout_object" where
  "ex_obj pg lbl c ya yb =
     \<lparr>page_index = pg, label = lbl, col = c, y1 = ya, y2 = yb, coords = (50, ya, 400, yb)\<rparr>"

text \<open>The number that a string of decimal digits denotes.\<close>

definition digit_val :: "char \<Rightarrow> nat" where
  "digit_val c = of_char c - 48"

definition digits_val :: "string \<Rightarrow> nat" where
  "digits_val s = foldl (\<lambda>a c. 10 * a + digit_val c) 0 s"

definition ex_span :: "int \<Rightarrow> layout_object \<Rightarrow> layout_object \<Rightarrow> opinion_span" where
  "ex_span k s e =
     \<lparr>sp_n = k, sp_start = Some s, sp_end = Some e, sp_reason = ''caption->Key'',
      sp_case_name = None\<rparr>"

text \<open>The footnote objects that bound the left and the right column of a page.\<close>

definition left_footnotes :: "layout_object list \<Rightarrow> layout_object set" where
  "left_footnotes objs =
     {obj \<in> set objs. label obj = ''footnotes'' \<and>
        (col obj = ''LEFT'' \<or> (col obj \<noteq> ''LEFT'' \<and> col obj \<noteq> ''RIGHT''))}"

definition right_footnotes :: "layout_object list \<Rightarrow> layout_object set" where
  "right_footnotes objs =
     {obj \<in> set objs. label obj = ''footnotes'' \<and>
        (col obj = ''RIGHT'' \<or> (col obj \<noteq> ''LEFT'' \<and> col obj \<noteq> ''RIGHT''))}"

text \<open>
  The column-crossing case read as: the window below the start goes to the column of the
  start object, the window above the end to the column of the end object, whichever
  columns they are. It is compared below with what \<open>apply_instruction\<close> does.
\<close>

definition claimed_column_crossing ::
  "config \<Rightarrow> geometry \<Rightarrow> layout_object \<Rightarrow> layout_object \<Rightarrow> region list" where
  "claimed_column_crossing cfg g start_obj end_obj =
     do_column_box g (y2 start_obj + of_int (start_offset cfg)) 9999 (col start_obj = ''LEFT'') @
     do_column_box g 0 (y1 end_obj + of_int (end_offset cfg)) (col end_obj = ''LEFT'')"

definition ex_geometry :: geometry where
  "ex_geometry =
     \<lparr>ceiling_y = 90, limit_bottom_left = 2140, limit_bottom_right = 2140,
      LEFT_X1 = 100, LEFT_X2 = 800, RIGHT_X1 = 900, RIGHT_X2 = 1600,
      scale_x = 1, scale_y = 1\<rparr>"

definition ex_page :: page_state where
  "ex_page = \<lparr>pending = [], burnt = [], apply_calls = 0\<rparr>"

section \<open>Properties of the planner\<close>

lemma ex_obj_sel [simp]:
  "page_index (ex_obj pg lbl c ya yb) = pg"
  "label (ex_obj pg lbl c ya yb) = lbl"
  "col (ex_obj pg lbl c ya yb) = c"
  "y1 (ex_obj pg lbl c ya yb) = ya"
  "y2 (ex_obj pg lbl c ya yb) = yb"
  "coords (ex_obj pg lbl c ya yb) = (50, ya, 400, yb)"
  by (simp_all add: ex_obj_def)

lemma planner_inv_init: "planner_inv (init_state idx)"
  by (simp add: planner_inv_def init_state_def)

lemma planner_inv_step: "planner_inv st \<Longrightarrow> planner_inv (plan_step st obj)"
  by (cases "current_state st")
     (auto simp: planner_inv_def plan_step_def record_opinion_span_def)

lemma planner_inv_fold:
  "planner_inv st \<Longrightarrow> planner_inv (fold (\<lambda>obj s. plan_step s obj) objs st)"
  by (induction objs arbitrary: st) (simp_all add: planner_inv_step)

lemma planner_inv_run: "planner_inv (run_machine (init_state idx) objs)"
  unfolding run_machine_def by (rule planner_inv_fold [OF planner_inv_init])

lemma name_spans_all:
  "list_all (\<lambda>sp. P (sp_start sp) (sp_end sp)) sps \<Longrightarrow>
   list_all (\<lambda>sp. P (sp_start sp) (sp_end sp)) (name_spans ps pc sps)"
  by (induction sps arbitrary: pc) (simp_all add: Let_def)

lemma assign_case_names_all:
  assumes "list_all (\<lambda>sp. sp_start sp \<noteq> None \<and> sp_end sp \<noteq> None) sps"
  shows "\<exists>named. assign_case_names sps ps = Inr named \<and>
           list_all (\<lambda>sp. sp_start sp \<noteq> None \<and> sp_end sp \<noteq> None) named"
proof -
  have ex: "\<not> list_ex (\<lambda>sp. sp_start sp = None) sps"
    using assms by (auto simp: list_all_iff list_ex_iff)
  have "list_all (\<lambda>sp. sp_start sp \<noteq> None \<and> sp_end sp \<noteq> None) (sort_key span_sort_key sps)"
    using assms by (simp add: list_all_iff)
  then have "list_all (\<lambda>sp. sp_start sp \<noteq> None \<and> sp_end sp \<noteq> None)
               (name_spans ps Map.empty (sort_key span_sort_key sps))"
    by (rule name_spans_all)
  with ex show ?thesis by (simp add: assign_case_names_def)
qed

lemma name_spans_core: "map span_core (name_spans ps pc sps) = map span_core sps"
  by (induction sps arbitrary: pc) (simp_all add: Let_def span_core_def)

lemma collect_none:
  "\<forall>obj\<in>set objs. label obj \<noteq> ''header'' \<and> label obj \<noteq> ''footnotes'' \<Longrightarrow>
   fold collect_step objs acc = acc"
  by (induction objs arbitrary: acc) (auto simp: collect_step_def split: prod.splits)

text \<open>
  Claim C2. Whatever the object list and the overlap filter, \<open>plan\<close> returns (it does not
  raise), and every redaction instruction and every opinion span it returns has a start
  object and an end object. An event with a missing start or end records nothing:
  \<open>_record_opinion_span\<close> leaves the span list and the counter as they are, and a Key met
  while tracking without a candidate end appends no instruction.
\<close>

theorem plan_no_missing_endpoints:
  "(\<exists>instrs spans hdrs ftrs idx'.
      plan flt idx objs fp = Inr (instrs, spans, hdrs, ftrs, idx') \<and>
      (\<forall>i \<in> set instrs. i_start i \<noteq> None \<and> i_end i \<noteq> None) \<and>
      (\<forall>sp \<in> set spans. sp_start sp \<noteq> None \<and> sp_end sp \<noteq> None)) \<and>
   record_opinion_span acc None e r = acc \<and>
   record_opinion_span acc s None r = acc \<and>
   (current_state st = TRACKING \<and> label obj = ''Key'' \<and> candidate_end_node st = None \<longrightarrow>
      redaction_instructions (plan_step st obj) = redaction_instructions st)"
proof -
  let ?st = "run_machine (init_state idx) (sort_objects (flt objs))"
  have inv: "planner_inv ?st" by (rule planner_inv_run)
  then have sp: "list_all (\<lambda>sp. sp_start sp \<noteq> None \<and> sp_end sp \<noteq> None) (opinion_spans ?st)"
    and ins: "list_all (\<lambda>i. i_start i \<noteq> None \<and> i_end i \<noteq> None) (redaction_instructions ?st)"
    by (simp_all add: planner_inv_def)
  from assign_case_names_all [OF sp, of fp] obtain named where
    n: "assign_case_names (opinion_spans ?st) fp = Inr named"
       "list_all (\<lambda>sp. sp_start sp \<noteq> None \<and> sp_end sp \<noteq> None) named" by blast
  have "\<exists>hdrs ftrs. plan flt idx objs fp =
          Inr (redaction_instructions ?st, named, hdrs, ftrs, opinion_idx ?st)"
    using n(1) by (simp add: plan_def Let_def split: prod.splits)
  with ins n(2) have part1: "\<exists>instrs spans hdrs ftrs idx'.
      plan flt idx objs fp = Inr (instrs, spans, hdrs, ftrs, idx') \<and>
      (\<forall>i \<in> set instrs. i_start i \<noteq> None \<and> i_end i \<noteq> None) \<and>
      (\<forall>sp \<in> set spans. sp_start sp \<noteq> None \<and> sp_end sp \<noteq> None)"
    unfolding list_all_iff by blast
  have part2: "record_opinion_span acc None e r = acc" "record_opinion_span acc s None r = acc"
    by (simp_all add: record_opinion_span_def split: prod.splits)
  have part3: "current_state st = TRACKING \<and> label obj = ''Key'' \<and> candidate_end_node st = None \<longrightarrow>
      redaction_instructions (plan_step st obj) = redaction_instructions st"
    by (simp add: plan_step_def record_opinion_span_def split: prod.splits)
  from part1 part2 part3 show ?thesis by blast
qed

theorem plan_no_missing_endpoints_witness:
  "(\<exists>instrs spans hdrs ftrs idx'.
      plan (\<lambda>xs. xs) 0
        [ex_obj 0 ''Key'' ''LEFT'' 40 60, ex_obj 0 ''caption'' ''LEFT'' 100 120,
         ex_obj 0 ''line'' ''LEFT'' 300 310, ex_obj 0 ''Key'' ''LEFT'' 500 520] 7 =
        Inr (instrs, spans, hdrs, ftrs, idx') \<and>
      (\<forall>i \<in> set instrs. i_start i \<noteq> None \<and> i_end i \<noteq> None) \<and>
      (\<forall>sp \<in> set spans. sp_start sp \<noteq> None \<and> sp_end sp \<noteq> None)) \<and>
   record_opinion_span ([], 0) None (Some (ex_obj 0 ''Key'' ''LEFT'' 40 60)) ''caption->Key'' =
     ([], 0) \<and>
   current_state (plan_step (init_state 0) (ex_obj 0 ''caption'' ''LEFT'' 100 120)) = TRACKING \<and>
   candidate_end_node (plan_step (init_state 0) (ex_obj 0 ''caption'' ''LEFT'' 100 120)) = None \<and>
   redaction_instructions
     (plan_step (plan_step (init_state 0) (ex_obj 0 ''caption'' ''LEFT'' 100 120))
        (ex_obj 0 ''Key'' ''LEFT'' 500 520)) =
   redaction_instructions (plan_step (init_state 0) (ex_obj 0 ''caption'' ''LEFT'' 100 120))"
proof -
  let ?st = "plan_step (init_state 0) (ex_obj 0 ''caption'' ''LEFT'' 100 120)"
  have h: "current_state ?st = TRACKING \<and> label (ex_obj 0 ''Key'' ''LEFT'' 500 520) = ''Key'' \<and>
           candidate_end_node ?st = None"
    by (simp add: plan_step_def init_state_def)
  note t = plan_no_missing_endpoints
    [of "\<lambda>xs. xs" 0
        "[ex_obj 0 ''Key'' ''LEFT'' 40 60, ex_obj 0 ''caption'' ''LEFT'' 100 120,
          ex_obj 0 ''line'' ''LEFT'' 300 310, ex_obj 0 ''Key'' ''LEFT'' 500 520]" 7
        "([], 0)" "Some (ex_obj 0 ''Key'' ''LEFT'' 40 60)" "''caption->Key''" None
        ?st "ex_obj 0 ''Key'' ''LEFT'' 500 520"]
  from t h show ?thesis by blast
qed

text \<open>
  Claim C3. For the sequence caption, headmatter, Key on one page and in one column, in
  reading order and kept by the overlap filter, \<open>plan\<close> returns exactly one redaction
  instruction, from the caption to the headmatter, and exactly one opinion span, from the
  caption to the Key with reason \<open>caption->Key\<close>.
\<close>

theorem plan_caption_headmatter_key:
  assumes "label c = ''caption''" "label h = ''headmatter''" "label k = ''Key''"
    and "page_index c = page_index h" "page_index h = page_index k"
    and "col c = col h" "col h = col k"
    and "y1 c \<le> y1 h" "y1 h \<le> y1 k"
    and "flt objs = [c, h, k]"
  shows "plan flt idx objs fp =
           Inr ([\<lparr>i_start = Some c, i_end = Some h\<rparr>],
                [\<lparr>sp_n = idx + 1, sp_start = Some c, sp_end = Some k,
                  sp_reason = ''caption->Key'',
                  sp_case_name = Some (case_name_of (page_index c + fp) 1)\<rparr>],
                Map.empty, Map.empty, idx + 1)"
proof -
  have srt: "sort_objects (flt objs) = [c, h, k]"
    unfolding sort_objects_def assms(10)
    by (rule sort_key_id_if_sorted) (use assms in \<open>simp add: object_key_def\<close>)
  have coll: "collect_headers_footers [c, h, k] = (Map.empty, Map.empty)"
    unfolding collect_headers_footers_def by (rule collect_none) (simp add: assms)
  have run: "run_machine (init_state idx) [c, h, k] =
      \<lparr>current_state = WAIT_CAPTION, active_start_node = None, candidate_end_node = None,
       opinion_start_caption = None,
       redaction_instructions = [\<lparr>i_start = Some c, i_end = Some h\<rparr>],
       opinion_spans = [\<lparr>sp_n = idx + 1, sp_start = Some c, sp_end = Some k,
                  sp_reason = ''caption->Key'', sp_case_name = None\<rparr>],
       opinion_idx = idx + 1\<rparr>"
    by (simp add: run_machine_def init_state_def plan_step_def record_opinion_span_def assms)
  show ?thesis
    by (simp add: plan_def srt coll run assign_case_names_def span_first_page_def Let_def)
qed

theorem plan_caption_headmatter_key_witness:
  "plan (\<lambda>xs. xs) 0
     [ex_obj 0 ''caption'' ''LEFT'' 100 120, ex_obj 0 ''headmatter'' ''LEFT'' 130 200,
      ex_obj 0 ''Key'' ''LEFT'' 210 230] 7 =
   Inr ([\<lparr>i_start = Some (ex_obj 0 ''caption'' ''LEFT'' 100 120),
          i_end = Some (ex_obj 0 ''headmatter'' ''LEFT'' 130 200)\<rparr>],
        [\<lparr>sp_n = 1, sp_start = Some (ex_obj 0 ''caption'' ''LEFT'' 100 120),
          sp_end = Some (ex_obj 0 ''Key'' ''LEFT'' 210 230),
          sp_reason = ''caption->Key'', sp_case_name = Some ''0007-01''\<rparr>],
        Map.empty, Map.empty, 1)"
proof -
  have nm: "case_name_of 7 1 = ''0007-01''"
    by (simp add: case_name_of_def format_0d_def zfill_def str_nat.simps digit_char_def
        eval_nat_numeral)
  show ?thesis
    using plan_caption_headmatter_key
      [of "ex_obj 0 ''caption'' ''LEFT'' 100 120" "ex_obj 0 ''headmatter'' ''LEFT'' 130 200"
          "ex_obj 0 ''Key'' ''LEFT'' 210 230" "\<lambda>xs. xs"
          "[ex_obj 0 ''caption'' ''LEFT'' 100 120, ex_obj 0 ''headmatter'' ''LEFT'' 130 200,
            ex_obj 0 ''Key'' ''LEFT'' 210 230]" 0 7]
    by (simp add: nm)
qed

text \<open>
  Claim C9. For the sequence caption1, headmatter1, line1, Key1, caption2, Key2 in
  reading order, \<open>plan\<close> returns two instructions: caption1 to line1, and caption2 to
  headmatter1. The candidate end set by headmatter1 is still set after Key1 (the locked
  state clears only the caption of the opinion) and after caption2, so the step on Key2
  appends the instruction from caption2 to headmatter1, besides the second opinion span.
\<close>

theorem plan_stale_candidate_end:
  assumes "label c1 = ''caption''" "label h1 = ''headmatter''" "label l1 = ''line''"
    "label k1 = ''Key''" "label c2 = ''caption''" "label k2 = ''Key''"
    and "sorted (map object_key [c1, h1, l1, k1, c2, k2])"
    and "flt objs = [c1, h1, l1, k1, c2, k2]"
  shows "(\<exists>spans hdrs ftrs.
            plan flt idx objs fp =
              Inr ([\<lparr>i_start = Some c1, i_end = Some l1\<rparr>, \<lparr>i_start = Some c2, i_end = Some h1\<rparr>],
                   spans, hdrs, ftrs, idx + 2) \<and>
            set (map span_core spans) =
              {(idx + 1, Some c1, Some k1, ''caption->Key''),
               (idx + 2, Some c2, Some k2, ''caption->Key'')}) \<and>
         candidate_end_node (run_machine (init_state idx) [c1, h1, l1, k1]) = Some h1 \<and>
         current_state (run_machine (init_state idx) [c1, h1, l1, k1]) = WAIT_CAPTION \<and>
         candidate_end_node (run_machine (init_state idx) [c1, h1, l1, k1, c2]) = Some h1 \<and>
         redaction_instructions
             (plan_step (run_machine (init_state idx) [c1, h1, l1, k1, c2]) k2) =
           redaction_instructions (run_machine (init_state idx) [c1, h1, l1, k1, c2]) @
             [\<lparr>i_start = Some c2, i_end = Some h1\<rparr>] \<and>
         opinion_spans (plan_step (run_machine (init_state idx) [c1, h1, l1, k1, c2]) k2) =
           opinion_spans (run_machine (init_state idx) [c1, h1, l1, k1, c2]) @
             [\<lparr>sp_n = idx + 2, sp_start = Some c2, sp_end = Some k2,
               sp_reason = ''caption->Key'', sp_case_name = None\<rparr>]"
proof -
  let ?seq = "[c1, h1, l1, k1, c2, k2]"
  let ?R = "''caption->Key''"
  have srt: "sort_objects (flt objs) = ?seq"
    unfolding sort_objects_def assms(8) by (rule sort_key_id_if_sorted) (rule assms(7))
  let ?I1 = "\<lparr>i_start = Some c1, i_end = Some l1\<rparr>"
  let ?S1 = "\<lparr>sp_n = idx + 1, sp_start = Some c1, sp_end = Some k1,
                  sp_reason = ?R, sp_case_name = None\<rparr>"
  let ?S2 = "\<lparr>sp_n = idx + 2, sp_start = Some c2, sp_end = Some k2,
                  sp_reason = ?R, sp_case_name = None\<rparr>"
  let ?st1 = "\<lparr>current_state = TRACKING, active_start_node = Some c1,
       candidate_end_node = None, opinion_start_caption = Some c1,
       redaction_instructions = [], opinion_spans = [], opinion_idx = idx\<rparr>"
  let ?st2 = "\<lparr>current_state = TRACKING, active_start_node = Some c1,
       candidate_end_node = Some h1, opinion_start_caption = Some c1,
       redaction_instructions = [], opinion_spans = [], opinion_idx = idx\<rparr>"
  let ?st3 = "\<lparr>current_state = LOCKED_UNTIL_KEY, active_start_node = Some c1,
       candidate_end_node = Some h1, opinion_start_caption = Some c1,
       redaction_instructions = [?I1], opinion_spans = [], opinion_idx = idx\<rparr>"
  let ?st4 = "\<lparr>current_state = WAIT_CAPTION, active_start_node = Some c1,
       candidate_end_node = Some h1, opinion_start_caption = None,
       redaction_instructions = [?I1], opinion_spans = [?S1], opinion_idx = idx + 1\<rparr>"
  let ?st5 = "\<lparr>current_state = TRACKING, active_start_node = Some c2,
       candidate_end_node = Some h1, opinion_start_caption = Some c2,
       redaction_instructions = [?I1], opinion_spans = [?S1], opinion_idx = idx + 1\<rparr>"
  let ?st6 = "\<lparr>current_state = WAIT_CAPTION, active_start_node = None,
       candidate_end_node = None, opinion_start_caption = None,
       redaction_instructions = [?I1, \<lparr>i_start = Some c2, i_end = Some h1\<rparr>],
       opinion_spans = [?S1, ?S2], opinion_idx = idx + 2\<rparr>"
  have s1: "plan_step (init_state idx) c1 = ?st1"
    by (simp add: init_state_def plan_step_def assms(1))
  have s2: "plan_step ?st1 h1 = ?st2"
    by (simp add: plan_step_def assms(2))
  have s3: "plan_step ?st2 l1 = ?st3"
    by (simp add: plan_step_def assms(3))
  have s4: "plan_step ?st3 k1 = ?st4"
    by (simp add: plan_step_def record_opinion_span_def assms(4))
  have s5: "plan_step ?st4 c2 = ?st5"
    by (simp add: plan_step_def assms(5))
  have s6: "plan_step ?st5 k2 = ?st6"
    by (simp add: plan_step_def record_opinion_span_def assms(6))
  have run4: "run_machine (init_state idx) [c1, h1, l1, k1] = ?st4"
    by (simp only: run_machine_def fold_simps o_apply s1 s2 s3 s4 id_apply)
  have run5: "run_machine (init_state idx) [c1, h1, l1, k1, c2] = ?st5"
    by (simp only: run_machine_def fold_simps o_apply s1 s2 s3 s4 s5 id_apply)
  have run6: "run_machine (init_state idx) ?seq = ?st6"
    by (simp only: run_machine_def fold_simps o_apply s1 s2 s3 s4 s5 s6 id_apply)
  let ?named = "name_spans fp Map.empty (sort_key span_sort_key [?S1, ?S2])"
  have asg: "assign_case_names [?S1, ?S2] fp = Inr ?named"
    by (simp add: assign_case_names_def)
  have "map span_core ?named = map span_core (sort_key span_sort_key [?S1, ?S2])"
    by (rule name_spans_core)
  then have "set (map span_core ?named) = span_core ` set [?S1, ?S2]"
    by (simp only: set_map set_sort)
  then have cores: "set (map span_core ?named) =
      {(idx + 1, Some c1, Some k1, ?R), (idx + 2, Some c2, Some k2, ?R)}"
    by (simp add: span_core_def)
  have "\<exists>hdrs ftrs. plan flt idx objs fp =
      Inr ([?I1, \<lparr>i_start = Some c2, i_end = Some h1\<rparr>], ?named, hdrs, ftrs, idx + 2)"
    unfolding plan_def srt run6 Let_def using asg by (simp split: prod.splits)
  with cores have part1: "\<exists>spans hdrs ftrs.
            plan flt idx objs fp =
              Inr ([?I1, \<lparr>i_start = Some c2, i_end = Some h1\<rparr>], spans, hdrs, ftrs, idx + 2) \<and>
            set (map span_core spans) =
              {(idx + 1, Some c1, Some k1, ?R), (idx + 2, Some c2, Some k2, ?R)}"
    by blast
  show ?thesis
    using part1 by (simp only: run4 run5 s6) simp
qed

theorem plan_stale_candidate_end_witness:
  "sorted (map object_key
     [ex_obj 0 ''caption'' ''LEFT'' 100 120, ex_obj 0 ''headmatter'' ''LEFT'' 130 200,
      ex_obj 0 ''line'' ''LEFT'' 300 310, ex_obj 0 ''Key'' ''LEFT'' 500 520,
      ex_obj 0 ''caption'' ''RIGHT'' 100 120, ex_obj 0 ''Key'' ''RIGHT'' 400 420]) \<and>
   (\<exists>spans hdrs ftrs.
      plan (\<lambda>xs. xs) 0
        [ex_obj 0 ''caption'' ''LEFT'' 100 120, ex_obj 0 ''headmatter'' ''LEFT'' 130 200,
         ex_obj 0 ''line'' ''LEFT'' 300 310, ex_obj 0 ''Key'' ''LEFT'' 500 520,
         ex_obj 0 ''caption'' ''RIGHT'' 100 120, ex_obj 0 ''Key'' ''RIGHT'' 400 420] 7 =
      Inr ([\<lparr>i_start = Some (ex_obj 0 ''caption'' ''LEFT'' 100 120),
             i_end = Some (ex_obj 0 ''line'' ''LEFT'' 300 310)\<rparr>,
            \<lparr>i_start = Some (ex_obj 0 ''caption'' ''RIGHT'' 100 120),
             i_end = Some (ex_obj 0 ''headmatter'' ''LEFT'' 130 200)\<rparr>],
           spans, hdrs, ftrs, 2))"
proof -
  have srt: "sorted (map object_key
     [ex_obj 0 ''caption'' ''LEFT'' 100 120, ex_obj 0 ''headmatter'' ''LEFT'' 130 200,
      ex_obj 0 ''line'' ''LEFT'' 300 310, ex_obj 0 ''Key'' ''LEFT'' 500 520,
      ex_obj 0 ''caption'' ''RIGHT'' 100 120, ex_obj 0 ''Key'' ''RIGHT'' 400 420])"
    by (simp add: object_key_def)
  from plan_stale_candidate_end [OF _ _ _ _ _ _ srt, of "\<lambda>xs. xs" _ 0 7]
  have "\<exists>spans hdrs ftrs.
      plan (\<lambda>xs. xs) 0
        [ex_obj 0 ''caption'' ''LEFT'' 100 120, ex_obj 0 ''headmatter'' ''LEFT'' 130 200,
         ex_obj 0 ''line'' ''LEFT'' 300 310, ex_obj 0 ''Key'' ''LEFT'' 500 520,
         ex_obj 0 ''caption'' ''RIGHT'' 100 120, ex_obj 0 ''Key'' ''RIGHT'' 400 420] 7 =
      Inr ([\<lparr>i_start = Some (ex_obj 0 ''caption'' ''LEFT'' 100 120),
             i_end = Some (ex_obj 0 ''line'' ''LEFT'' 300 310)\<rparr>,
            \<lparr>i_start = Some (ex_obj 0 ''caption'' ''RIGHT'' 100 120),
             i_end = Some (ex_obj 0 ''headmatter'' ''LEFT'' 130 200)\<rparr>],
           spans, hdrs, ftrs, 2)"
    by simp blast
  with srt show ?thesis by blast
qed


subsection \<open>Case names\<close>

lemma digit_val_digit_char: "d < 10 \<Longrightarrow> digit_val (digit_char d) = d"
proof -
  assume "d < 10"
  then have "d \<in> {0, 1, 2, 3, 4, 5, 6, 7, 8, 9}" by auto
  then show ?thesis
    by (auto simp: digit_char_def digit_val_def)
qed

lemma digits_val_snoc: "digits_val (s @ [c]) = 10 * digits_val s + digit_val c"
  by (simp add: digits_val_def)

lemma digits_val_str_nat: "digits_val (str_nat n) = n"
proof (induction n rule: str_nat.induct)
  case (1 n)
  show ?case
  proof (cases "n < 10")
    case True
    then show ?thesis
      using digits_val_snoc [of "[]" "digit_char n"]
      by (simp add: str_nat.simps [of n] digit_val_digit_char digits_val_def)
  next
    case False
    with 1 have "digits_val (str_nat (n div 10)) = n div 10" by simp
    with False show ?thesis
      by (simp add: str_nat.simps [of n] digits_val_snoc digit_val_digit_char)
  qed
qed

lemma digits_val_zeros: "digits_val (replicate k (CHR ''0'') @ s) = digits_val s"
proof -
  have "foldl (\<lambda>a c. 10 * a + digit_val c) 0 (replicate k (CHR ''0'')) = 0"
    by (induction k) (simp_all add: digit_val_def)
  then show ?thesis by (simp add: digits_val_def)
qed

lemma digits_val_format: "0 \<le> i \<Longrightarrow> digits_val (format_0d w i) = nat i"
  by (simp add: format_0d_def zfill_def digits_val_zeros digits_val_str_nat)

lemma case_name_of_inj:
  assumes "case_name_of p i = case_name_of p j" "0 \<le> i" "0 \<le> j"
  shows "i = j"
proof -
  from assms(1) have "format_0d 2 i = format_0d 2 j"
    by (simp add: case_name_of_def)
  then have "digits_val (format_0d 2 i) = digits_val (format_0d 2 j)" by simp
  with assms(2,3) show ?thesis by (simp add: digits_val_format)
qed

lemma name_spans_length_filter:
  "length (filter (\<lambda>sp. span_first_page ps sp = p) (name_spans ps pc sps)) =
   length (filter (\<lambda>sp. span_first_page ps sp = p) sps)"
  by (induction sps arbitrary: pc) (simp_all add: Let_def span_first_page_def)

lemma name_spans_counters:
  "map sp_case_name (filter (\<lambda>sp. span_first_page ps sp = p) (name_spans ps pc sps)) =
   map (\<lambda>i. Some (case_name_of p ((case pc p of None \<Rightarrow> 0 | Some c \<Rightarrow> c) + int i)))
     [1..<Suc (length (filter (\<lambda>sp. span_first_page ps sp = p) sps))]"
proof (induction sps arbitrary: pc)
  case Nil
  show ?case by simp
next
  case (Cons sp sps)
  let ?b = "case pc p of None \<Rightarrow> 0 | Some c \<Rightarrow> c"
  let ?k = "length (filter (\<lambda>sp. span_first_page ps sp = p) sps)"
  show ?case
  proof (cases "span_first_page ps sp = p")
    case True
    let ?pc' = "pc(p \<mapsto> ?b + 1)"
    have c: "(case ?pc' p of None \<Rightarrow> 0 | Some c \<Rightarrow> c) = ?b + 1" by simp
    have ih: "map sp_case_name (filter (\<lambda>sp. span_first_page ps sp = p) (name_spans ps ?pc' sps)) =
      map (\<lambda>i. Some (case_name_of p (?b + 1 + int i))) [1..<Suc ?k]"
      using Cons.IH [of ?pc'] by (simp only: c)
    have shift: "map (\<lambda>i. Some (case_name_of p (?b + 1 + int i))) [1..<Suc ?k] =
                 map (\<lambda>i. Some (case_name_of p (?b + int i))) [2..<Suc (Suc ?k)]"
    proof -
      have "[2..<Suc (Suc ?k)] = map Suc [1..<Suc ?k]"
        by (simp only: map_Suc_upt) (simp add: numeral_2_eq_2 del: upt_Suc)
      then show ?thesis by (simp add: comp_def ac_simps del: upt_Suc)
    qed
    have "[1..<Suc (Suc ?k)] = 1 # [2..<Suc (Suc ?k)]"
      by (subst upt_rec) (simp add: numeral_2_eq_2 del: upt_Suc)
    then have rhs: "map (\<lambda>i. Some (case_name_of p (?b + int i))) [1..<Suc (Suc ?k)] =
        Some (case_name_of p (?b + 1)) # map (\<lambda>i. Some (case_name_of p (?b + int i))) [2..<Suc (Suc ?k)]"
      by (simp del: upt_Suc)
    have lhs: "map sp_case_name (filter (\<lambda>sp. span_first_page ps sp = p) (name_spans ps pc (sp # sps))) =
        Some (case_name_of p (?b + 1)) #
        map sp_case_name (filter (\<lambda>sp. span_first_page ps sp = p) (name_spans ps ?pc' sps))"
      using True by (simp add: Let_def span_first_page_def)
    have len: "length (filter (\<lambda>sp. span_first_page ps sp = p) (sp # sps)) = Suc ?k"
      using True by simp
    show ?thesis
      unfolding lhs len rhs ih shift ..
  next
    case False
    let ?q = "span_first_page ps sp"
    let ?pc' = "pc(?q \<mapsto> (case pc ?q of None \<Rightarrow> 0 | Some c \<Rightarrow> c) + 1)"
    have c: "(case ?pc' p of None \<Rightarrow> 0 | Some c \<Rightarrow> c) = ?b" using False by simp
    have ih: "map sp_case_name (filter (\<lambda>sp. span_first_page ps sp = p) (name_spans ps ?pc' sps)) =
      map (\<lambda>i. Some (case_name_of p (?b + int i))) [1..<Suc ?k]"
      using Cons.IH [of ?pc'] by (simp only: c)
    have lhs: "map sp_case_name (filter (\<lambda>sp. span_first_page ps sp = p) (name_spans ps pc (sp # sps))) =
        map sp_case_name (filter (\<lambda>sp. span_first_page ps sp = p) (name_spans ps ?pc' sps))"
      using False by (simp add: Let_def span_first_page_def)
    have len: "length (filter (\<lambda>sp. span_first_page ps sp = p) (sp # sps)) = ?k"
      using False by simp
    show ?thesis
      unfolding lhs len ih ..
  qed
qed

lemma name_spans_keys: "map span_sort_key (name_spans ps pc sps) = map span_sort_key sps"
  by (induction sps arbitrary: pc) (simp_all add: Let_def span_sort_key_def)

lemma name_spans_nonneg_distinct:
  "distinct (map (\<lambda>i. Some (case_name_of p (int i))) [1..<Suc k])"
  by (auto simp: distinct_map inj_on_def dest: case_name_of_inj)

text \<open>
  Claim C4. After \<open>_assign_case_names\<close>, the spans sharing a first page \<open>p\<close> (the page
  index of the start plus the page offset) carry, in the order of the sorted list, the
  case names built from \<open>p\<close> and the counters \<open>1, 2, ..., k\<close>; these names are pairwise
  different. The list is the input sorted by \<open>(page, column order, y1)\<close>.
\<close>

theorem case_name_counters:
  assumes "assign_case_names spans page_start = Inr named"
  shows "map sp_case_name (filter (\<lambda>sp. span_first_page page_start sp = p) named) =
           map (\<lambda>i. Some (case_name_of p (int i)))
             [1..<Suc (length (filter (\<lambda>sp. span_first_page page_start sp = p) named))] \<and>
         distinct (map sp_case_name (filter (\<lambda>sp. span_first_page page_start sp = p) named)) \<and>
         sorted (map span_sort_key named) \<and>
         map span_core named = map span_core (sort_key span_sort_key spans)"
proof (cases "spans = []")
  case True
  with assms show ?thesis by (simp add: assign_case_names_def)
next
  case False
  let ?srt = "sort_key span_sort_key spans"
  from assms False have named: "named = name_spans page_start Map.empty ?srt"
    by (simp add: assign_case_names_def split: if_splits)
  let ?k = "length (filter (\<lambda>sp. span_first_page page_start sp = p) named)"
  have len: "?k = length (filter (\<lambda>sp. span_first_page page_start sp = p) ?srt)"
    unfolding named by (rule name_spans_length_filter)
  have names: "map sp_case_name (filter (\<lambda>sp. span_first_page page_start sp = p) named) =
           map (\<lambda>i. Some (case_name_of p (int i))) [1..<Suc ?k]"
    unfolding len unfolding named
    using name_spans_counters [of page_start p Map.empty ?srt] by (simp del: upt_Suc)
  have dist: "distinct (map sp_case_name (filter (\<lambda>sp. span_first_page page_start sp = p) named))"
    unfolding names by (rule name_spans_nonneg_distinct)
  have srt: "sorted (map span_sort_key named)"
    unfolding named name_spans_keys by simp
  have core: "map span_core named = map span_core ?srt"
    unfolding named by (rule name_spans_core)
  from names dist srt core show ?thesis by blast
qed

lemma case_name_of_examples: "case_name_of 7 1 = ''0007-01''" "case_name_of 7 2 = ''0007-02''" "case_name_of 8 1 = ''0008-01''"
  by (simp_all add: case_name_of_def format_0d_def zfill_def str_nat.simps digit_char_def eval_nat_numeral)

lemma assign_case_names_example: "assign_case_names
      [ex_span 1 (ex_obj 1 ''caption'' ''LEFT'' 100 120) (ex_obj 1 ''Key'' ''LEFT'' 500 520),
       ex_span 2 (ex_obj 0 ''caption'' ''RIGHT'' 100 120) (ex_obj 0 ''Key'' ''RIGHT'' 500 520),
       ex_span 3 (ex_obj 0 ''caption'' ''LEFT'' 300 320) (ex_obj 0 ''Key'' ''LEFT'' 500 520)] 7 =
    Inr [(ex_span 3 (ex_obj 0 ''caption'' ''LEFT'' 300 320) (ex_obj 0 ''Key'' ''LEFT'' 500 520))
           \<lparr>sp_case_name := Some ''0007-01''\<rparr>,
         (ex_span 2 (ex_obj 0 ''caption'' ''RIGHT'' 100 120) (ex_obj 0 ''Key'' ''RIGHT'' 500 520))
           \<lparr>sp_case_name := Some ''0007-02''\<rparr>,
         (ex_span 1 (ex_obj 1 ''caption'' ''LEFT'' 100 120) (ex_obj 1 ''Key'' ''LEFT'' 500 520))
           \<lparr>sp_case_name := Some ''0008-01''\<rparr>]"
    by (simp add: assign_case_names_def ex_span_def span_sort_key_def span_key_def COL_ORDER_def
        span_first_page_def case_name_of_examples Let_def)

theorem case_name_counters_witness:
  "assign_case_names
      [ex_span 1 (ex_obj 1 ''caption'' ''LEFT'' 100 120) (ex_obj 1 ''Key'' ''LEFT'' 500 520),
       ex_span 2 (ex_obj 0 ''caption'' ''RIGHT'' 100 120) (ex_obj 0 ''Key'' ''RIGHT'' 500 520),
       ex_span 3 (ex_obj 0 ''caption'' ''LEFT'' 300 320) (ex_obj 0 ''Key'' ''LEFT'' 500 520)] 7 =
    Inr [(ex_span 3 (ex_obj 0 ''caption'' ''LEFT'' 300 320) (ex_obj 0 ''Key'' ''LEFT'' 500 520))
           \<lparr>sp_case_name := Some ''0007-01''\<rparr>,
         (ex_span 2 (ex_obj 0 ''caption'' ''RIGHT'' 100 120) (ex_obj 0 ''Key'' ''RIGHT'' 500 520))
           \<lparr>sp_case_name := Some ''0007-02''\<rparr>,
         (ex_span 1 (ex_obj 1 ''caption'' ''LEFT'' 100 120) (ex_obj 1 ''Key'' ''LEFT'' 500 520))
           \<lparr>sp_case_name := Some ''0008-01''\<rparr>] \<and>
   [Some ''0007-01'', Some ''0007-02''] =
     map (\<lambda>i. Some (case_name_of 7 (int i))) [1..<Suc 2]"
proof -
  let ?n3 = "(ex_span 3 (ex_obj 0 ''caption'' ''LEFT'' 300 320) (ex_obj 0 ''Key'' ''LEFT'' 500 520))
           \<lparr>sp_case_name := Some ''0007-01''\<rparr>"
  let ?n2 = "(ex_span 2 (ex_obj 0 ''caption'' ''RIGHT'' 100 120) (ex_obj 0 ''Key'' ''RIGHT'' 500 520))
           \<lparr>sp_case_name := Some ''0007-02''\<rparr>"
  let ?n1 = "(ex_span 1 (ex_obj 1 ''caption'' ''LEFT'' 100 120) (ex_obj 1 ''Key'' ''LEFT'' 500 520))
           \<lparr>sp_case_name := Some ''0008-01''\<rparr>"
  have f: "filter (\<lambda>sp. span_first_page 7 sp = 7) [?n3, ?n2, ?n1] = [?n3, ?n2]"
    by (simp add: ex_span_def span_first_page_def)
  have l: "length [?n3, ?n2] = 2" by simp
  have m: "map sp_case_name [?n3, ?n2] = [Some ''0007-01'', Some ''0007-02'']"
    by (simp add: ex_span_def)
  from case_name_counters [OF assign_case_names_example, of 7, THEN conjunct1]
  have "[Some ''0007-01'', Some ''0007-02''] =
          map (\<lambda>i. Some (case_name_of 7 (int i))) [1..<Suc 2]"
    unfolding f l m .
  with assign_case_names_example show ?thesis by (rule conjI)
qed


section \<open>Properties of the geometry engine\<close>

lemma Min_insert_min:
  "finite A \<Longrightarrow> Min (insert (min a b) A) = Min (insert a (insert b A))"
  by (cases "A = {}") (simp_all add: min.assoc)

lemma footnote_fold:
  "fold footnote_step objs (l, r) =
     (Min (insert l (y1 ` left_footnotes objs)), Min (insert r (y1 ` right_footnotes objs)))"
proof (induction objs arbitrary: l r)
  case Nil
  show ?case by (simp add: left_footnotes_def right_footnotes_def)
next
  case (Cons obj objs)
  have fl: "finite (y1 ` left_footnotes objs)" and fr: "finite (y1 ` right_footnotes objs)"
    by (simp_all add: left_footnotes_def right_footnotes_def)
  consider (none) "label obj \<noteq> ''footnotes''"
    | (left) "label obj = ''footnotes''" "col obj = ''LEFT''"
    | (right) "label obj = ''footnotes''" "col obj = ''RIGHT''"
    | (both) "label obj = ''footnotes''" "col obj \<noteq> ''LEFT''" "col obj \<noteq> ''RIGHT''"
    by blast
  then show ?case
  proof cases
    case none
    then have "left_footnotes (obj # objs) = left_footnotes objs"
      "right_footnotes (obj # objs) = right_footnotes objs"
      by (auto simp: left_footnotes_def right_footnotes_def)
    with none Cons.IH [of l r] show ?thesis by (simp add: footnote_step_def)
  next
    case left
    then have "left_footnotes (obj # objs) = insert obj (left_footnotes objs)"
      "right_footnotes (obj # objs) = right_footnotes objs"
      by (auto simp: left_footnotes_def right_footnotes_def)
    with left Cons.IH [of "min l (y1 obj)" r] Min_insert_min [OF fl, of l "y1 obj"]
    show ?thesis by (simp add: footnote_step_def)
  next
    case right
    then have "left_footnotes (obj # objs) = left_footnotes objs"
      "right_footnotes (obj # objs) = insert obj (right_footnotes objs)"
      by (auto simp: left_footnotes_def right_footnotes_def)
    with right Cons.IH [of l "min r (y1 obj)"] Min_insert_min [OF fr, of r "y1 obj"]
    show ?thesis by (simp add: footnote_step_def)
  next
    case both
    then have "left_footnotes (obj # objs) = insert obj (left_footnotes objs)"
      "right_footnotes (obj # objs) = insert obj (right_footnotes objs)"
      by (auto simp: left_footnotes_def right_footnotes_def)
    with both Cons.IH [of "min l (y1 obj)" "min r (y1 obj)"]
      Min_insert_min [OF fl, of l "y1 obj"] Min_insert_min [OF fr, of r "y1 obj"]
    show ?thesis by (simp add: footnote_step_def)
  qed
qed

lemma page_geometry_sel:
  "ceiling_y (page_geometry pg objs img_h cols sx sy) = header_ceiling img_h objs"
  "limit_bottom_left (page_geometry pg objs img_h cols sx sy) = fst (footnote_limits img_h objs)"
  "limit_bottom_right (page_geometry pg objs img_h cols sx sy) = snd (footnote_limits img_h objs)"
  by (simp_all add: page_geometry_def split: prod.splits)


text \<open>
  Claim C6. On a processed page, the bottom limit of a column is the minimum of the
  default bottom margin \<open>img_h - 60\<close> and the top edges \<open>y1\<close> of the footnote objects of
  the page that belong to the column; a footnote object whose column is neither \<open>LEFT\<close>
  nor \<open>RIGHT\<close> belongs to both.
\<close>

theorem bottom_limits_are_footnote_minima:
  "limit_bottom_left (page_geometry page_idx objs_on_page img_h cols sx sy) =
     Min (insert (img_h - 60)
       (y1 ` {obj \<in> set objs_on_page. label obj = ''footnotes'' \<and>
                (col obj = ''LEFT'' \<or> (col obj \<noteq> ''LEFT'' \<and> col obj \<noteq> ''RIGHT''))})) \<and>
   limit_bottom_right (page_geometry page_idx objs_on_page img_h cols sx sy) =
     Min (insert (img_h - 60)
       (y1 ` {obj \<in> set objs_on_page. label obj = ''footnotes'' \<and>
                (col obj = ''RIGHT'' \<or> (col obj \<noteq> ''LEFT'' \<and> col obj \<noteq> ''RIGHT''))}))"
  by (simp add: page_geometry_sel footnote_limits_def footnote_fold
      left_footnotes_def right_footnotes_def)

theorem bottom_limits_are_footnote_minima_witness:
  "limit_bottom_left (page_geometry 0
      [ex_obj 0 ''footnotes'' ''LEFT'' 1900 2100, ex_obj 0 ''footnotes'' '''' 2000 2100,
       ex_obj 0 ''footnotes'' ''RIGHT'' 1800 2100] 2200 Map.empty 1 1) = 1900 \<and>
   limit_bottom_right (page_geometry 0
      [ex_obj 0 ''footnotes'' ''LEFT'' 1900 2100, ex_obj 0 ''footnotes'' '''' 2000 2100,
       ex_obj 0 ''footnotes'' ''RIGHT'' 1800 2100] 2200 Map.empty 1 1) = 1800"
proof -
  let ?objs = "[ex_obj 0 ''footnotes'' ''LEFT'' 1900 2100, ex_obj 0 ''footnotes'' '''' 2000 2100,
       ex_obj 0 ''footnotes'' ''RIGHT'' 1800 2100]"
  have L: "{obj \<in> set ?objs. label obj = ''footnotes'' \<and>
                (col obj = ''LEFT'' \<or> (col obj \<noteq> ''LEFT'' \<and> col obj \<noteq> ''RIGHT''))} =
           {ex_obj 0 ''footnotes'' ''LEFT'' 1900 2100, ex_obj 0 ''footnotes'' '''' 2000 2100}"
    by auto
  have R: "{obj \<in> set ?objs. label obj = ''footnotes'' \<and>
                (col obj = ''RIGHT'' \<or> (col obj \<noteq> ''LEFT'' \<and> col obj \<noteq> ''RIGHT''))} =
           {ex_obj 0 ''footnotes'' '''' 2000 2100, ex_obj 0 ''footnotes'' ''RIGHT'' 1800 2100}"
    by auto
  show ?thesis
    using bottom_limits_are_footnote_minima [of 0 ?objs 2200 Map.empty 1 1]
    unfolding L R by simp
qed

lemma fold_max_Max: "fold max (map f xs) (f x) = Max (f ` set (x # xs))"
  using Max.set_eq_fold [of "f x" "map f xs"] by simp


text \<open>
  Claim C5. On a processed page, the header ceiling is \<open>max 90 (b + 5)\<close> when the page
  has a header object and the largest bottom edge \<open>b\<close> of its header objects is strictly
  less than a third of the image height; otherwise it is \<open>90\<close>.
\<close>

theorem header_ceiling_value:
  "ceiling_y (page_geometry page_idx objs_on_page img_h cols sx sy) =
     (if (\<exists>obj \<in> set objs_on_page. label obj = ''header'') \<and>
         Max (y2 ` {obj \<in> set objs_on_page. label obj = ''header''}) < img_h / 3
      then max 90 (Max (y2 ` {obj \<in> set objs_on_page. label obj = ''header''}) + 5)
      else 90)"
proof (cases "filter (\<lambda>obj. label obj = ''header'') objs_on_page")
  case Nil
  then have "\<not> (\<exists>obj \<in> set objs_on_page. label obj = ''header'')"
    by (simp add: filter_empty_conv)
  with Nil show ?thesis by (simp add: page_geometry_sel header_ceiling_def)
next
  case (Cons h hs)
  then have "h \<in> set (filter (\<lambda>obj. label obj = ''header'') objs_on_page)" by simp
  then have ex: "\<exists>obj \<in> set objs_on_page. label obj = ''header''" by auto
  have "{obj \<in> set objs_on_page. label obj = ''header''} = set (h # hs)"
    using Cons by (metis set_filter)
  then have "Max (y2 ` {obj \<in> set objs_on_page. label obj = ''header''}) = fold max (map y2 hs) (y2 h)"
    by (simp only: fold_max_Max)
  with ex Cons show ?thesis
    by (simp add: page_geometry_sel header_ceiling_def Let_def)
qed

theorem header_ceiling_value_witness:
  "(\<exists>obj \<in> set [ex_obj 0 ''header'' '''' 40 150, ex_obj 0 ''caption'' ''LEFT'' 200 220].
      label obj = ''header'') \<and>
   ceiling_y (page_geometry 0 [ex_obj 0 ''header'' '''' 40 150, ex_obj 0 ''caption'' ''LEFT'' 200 220]
      2200 Map.empty 1 1) = 155 \<and>
   ceiling_y (page_geometry 0 [ex_obj 0 ''header'' '''' 40 900, ex_obj 0 ''caption'' ''LEFT'' 200 220]
      2200 Map.empty 1 1) = 90"
proof -
  have S: "{obj \<in> set [ex_obj 0 ''header'' '''' 40 y, ex_obj 0 ''caption'' ''LEFT'' 200 220].
             label obj = ''header''} = {ex_obj 0 ''header'' '''' 40 y}" for y
    by auto
  show ?thesis
    using header_ceiling_value
        [of 0 "[ex_obj 0 ''header'' '''' 40 150, ex_obj 0 ''caption'' ''LEFT'' 200 220]" 2200
            Map.empty 1 1]
      header_ceiling_value
        [of 0 "[ex_obj 0 ''header'' '''' 40 900, ex_obj 0 ''caption'' ''LEFT'' 200 220]" 2200
            Map.empty 1 1]
    unfolding S by simp
qed


text \<open>
  Claim C1, as the code has it. For an instruction whose start and end are on the page
  being processed and of which exactly one is in the \<open>LEFT\<close> column, the engine redacts
  the left column from \<open>max ceiling (start.y2 + start_offset)\<close> down to
  \<open>min left_bottom_limit 9999\<close>, and the right column from \<open>max ceiling 0\<close> down to
  \<open>min right_bottom_limit (end.y1 + end_offset)\<close>. Each bound is truncated to whole
  pixels, and a window whose bottom is not below its top is dropped. When the start is
  the one in the left column, these are the column of the start and the column of the end.
\<close>

theorem column_crossing_left_then_right:
  assumes "i_start instr = Some s" "i_end instr = Some e"
    and "page_index s = page_idx" "page_index e = page_idx"
    and "(col s = ''LEFT'') \<noteq> (col e = ''LEFT'')"
  shows "apply_instruction cfg g instr page_idx =
           Inr (do_column_box g (y2 s + of_int (start_offset cfg)) 9999 True @
                do_column_box g 0 (y1 e + of_int (end_offset cfg)) False) \<and>
         do_column_box g (y2 s + of_int (start_offset cfg)) 9999 True =
           (let y_top = py_int (max (ceiling_y g) (y2 s + of_int (start_offset cfg)));
                y_bottom = py_int (min (limit_bottom_left g) 9999)
            in if y_bottom \<le> y_top then []
               else [TextWindow (LEFT_X1 g * scale_x g, of_int y_top * scale_y g,
                                 LEFT_X2 g * scale_x g, of_int y_bottom * scale_y g)]) \<and>
         do_column_box g 0 (y1 e + of_int (end_offset cfg)) False =
           (let y_top = py_int (max (ceiling_y g) 0);
                y_bottom = py_int (min (limit_bottom_right g) (y1 e + of_int (end_offset cfg)))
            in if y_bottom \<le> y_top then []
               else [TextWindow (RIGHT_X1 g * scale_x g, of_int y_top * scale_y g,
                                 RIGHT_X2 g * scale_x g, of_int y_bottom * scale_y g)]) \<and>
         (col s = ''LEFT'' \<longrightarrow>
            apply_instruction cfg g instr page_idx = Inr (claimed_column_crossing cfg g s e))"
proof -
  have a: "apply_instruction cfg g instr page_idx =
           Inr (do_column_box g (y2 s + of_int (start_offset cfg)) 9999 True @
                do_column_box g 0 (y1 e + of_int (end_offset cfg)) False)"
    using assms by (simp add: apply_instruction_def Let_def)
  have b: "do_column_box g (y2 s + of_int (start_offset cfg)) 9999 True =
           (let y_top = py_int (max (ceiling_y g) (y2 s + of_int (start_offset cfg)));
                y_bottom = py_int (min (limit_bottom_left g) 9999)
            in if y_bottom \<le> y_top then []
               else [TextWindow (LEFT_X1 g * scale_x g, of_int y_top * scale_y g,
                                 LEFT_X2 g * scale_x g, of_int y_bottom * scale_y g)])"
    by (simp add: do_column_box_def Let_def)
  have c: "do_column_box g 0 (y1 e + of_int (end_offset cfg)) False =
           (let y_top = py_int (max (ceiling_y g) 0);
                y_bottom = py_int (min (limit_bottom_right g) (y1 e + of_int (end_offset cfg)))
            in if y_bottom \<le> y_top then []
               else [TextWindow (RIGHT_X1 g * scale_x g, of_int y_top * scale_y g,
                                 RIGHT_X2 g * scale_x g, of_int y_bottom * scale_y g)])"
    by (simp add: do_column_box_def Let_def)
  have d: "col s = ''LEFT'' \<longrightarrow>
            apply_instruction cfg g instr page_idx = Inr (claimed_column_crossing cfg g s e)"
    using assms(5) a by (auto simp: claimed_column_crossing_def)
  from a b c d show ?thesis by (intro conjI)
qed

lemma ex_boxes:
  "do_column_box ex_geometry 200 9999 True = [TextWindow (100, 200, 800, 2140)]"
  "do_column_box ex_geometry 0 150 False = [TextWindow (900, 90, 1600, 150)]"
  "do_column_box ex_geometry 200 9999 False = [TextWindow (900, 200, 1600, 2140)]"
  "do_column_box ex_geometry 0 150 True = [TextWindow (100, 90, 800, 150)]"
  by (simp_all add: do_column_box_def ex_geometry_def py_int_def Let_def)

theorem column_crossing_left_then_right_witness:
  "apply_instruction default_config ex_geometry
     \<lparr>i_start = Some (ex_obj 0 ''caption'' ''LEFT'' 100 200),
      i_end = Some (ex_obj 0 ''line'' ''RIGHT'' 150 160)\<rparr> 0 =
   Inr [TextWindow (100, 200, 800, 2140), TextWindow (900, 90, 1600, 150)]"
  using column_crossing_left_then_right
    [of "\<lparr>i_start = Some (ex_obj 0 ''caption'' ''LEFT'' 100 200),
          i_end = Some (ex_obj 0 ''line'' ''RIGHT'' 150 160)\<rparr>"
        "ex_obj 0 ''caption'' ''LEFT'' 100 200" "ex_obj 0 ''line'' ''RIGHT'' 150 160" 0
        default_config ex_geometry]
  by (simp add: default_config_def ex_boxes)


text \<open>
  The statement of claim C1 for any pair of columns fails: with the start in the right
  column and the end in the left column, the window below the start is still put on the
  left column and the window above the end on the right column.
\<close>

theorem column_crossing_right_then_left_counterexample:
  "apply_instruction default_config ex_geometry
     \<lparr>i_start = Some (ex_obj 0 ''caption'' ''RIGHT'' 100 200),
      i_end = Some (ex_obj 0 ''headmatter'' ''LEFT'' 150 190)\<rparr> 0 =
   Inr [TextWindow (100, 200, 800, 2140), TextWindow (900, 90, 1600, 150)] \<and>
   claimed_column_crossing default_config ex_geometry
     (ex_obj 0 ''caption'' ''RIGHT'' 100 200) (ex_obj 0 ''headmatter'' ''LEFT'' 150 190) =
   [TextWindow (900, 200, 1600, 2140), TextWindow (100, 90, 800, 150)] \<and>
   apply_instruction default_config ex_geometry
     \<lparr>i_start = Some (ex_obj 0 ''caption'' ''RIGHT'' 100 200),
      i_end = Some (ex_obj 0 ''headmatter'' ''LEFT'' 150 190)\<rparr> 0 \<noteq>
   Inr (claimed_column_crossing default_config ex_geometry
     (ex_obj 0 ''caption'' ''RIGHT'' 100 200) (ex_obj 0 ''headmatter'' ''LEFT'' 150 190))"
  by (simp add: apply_instruction_def claimed_column_crossing_def default_config_def ex_boxes Let_def)

lemma do_column_box_degenerate_height:
  "py_int (min (if is_left then limit_bottom_left g else limit_bottom_right g) y_bottom_px)
     \<le> py_int (max (ceiling_y g) y_top_px) \<Longrightarrow>
   do_column_box g y_top_px y_bottom_px is_left = []"
  by (simp add: do_column_box_def Let_def)

lemma add_redaction_box_degenerate:
  "by2 \<le> by1 \<or> bx2 \<le> bx1 \<Longrightarrow> add_redaction_box bx1 by1 bx2 by2 sx sy = []"
  by (simp add: add_redaction_box_def)


text \<open>
  Claim C7, as the code has it. A column window whose height is not positive after the
  vertical clamping to the ceiling and the bottom limit is dropped. A discrete-object
  box whose detection rectangle, truncated to whole pixels and not clamped, has a width
  or a height that is not positive is dropped. Both functions return a list of regions,
  which is empty then: nothing is registered and nothing is raised.
\<close>

theorem degenerate_boxes_dropped:
  "(py_int (min (if is_left then limit_bottom_left g else limit_bottom_right g) y_bottom_px)
      \<le> py_int (max (ceiling_y g) y_top_px) \<longrightarrow>
    do_column_box g y_top_px y_bottom_px is_left = []) \<and>
   ((case int_coords obj of (a, b, c, d) \<Rightarrow> d \<le> b \<or> c \<le> a) \<longrightarrow> object_box obj sx sy = []) \<and>
   (by2 \<le> by1 \<or> bx2 \<le> bx1 \<longrightarrow> add_redaction_box bx1 by1 bx2 by2 sx sy = [])"
proof -
  have a: "py_int (min (if is_left then limit_bottom_left g else limit_bottom_right g) y_bottom_px)
      \<le> py_int (max (ceiling_y g) y_top_px) \<longrightarrow>
    do_column_box g y_top_px y_bottom_px is_left = []"
    using do_column_box_degenerate_height [of is_left g y_bottom_px y_top_px] by blast
  have b: "(case int_coords obj of (a, b, c, d) \<Rightarrow> d \<le> b \<or> c \<le> a) \<longrightarrow> object_box obj sx sy = []"
    by (auto simp: object_box_def add_redaction_box_degenerate split: prod.splits)
  have c: "by2 \<le> by1 \<or> bx2 \<le> bx1 \<longrightarrow> add_redaction_box bx1 by1 bx2 by2 sx sy = []"
    using add_redaction_box_degenerate [of by2 by1 bx2 bx1 sx sy] by blast
  from a b c show ?thesis by (intro conjI)
qed

theorem degenerate_boxes_dropped_witness:
  "py_int (min (limit_bottom_left ex_geometry) 9999) \<le> py_int (max (ceiling_y ex_geometry) 2500) \<and>
   do_column_box ex_geometry 2500 9999 True = [] \<and>
   int_coords (ex_obj 0 ''line'' ''LEFT'' 510 500) = (50, 510, 400, 500) \<and>
   object_box (ex_obj 0 ''line'' ''LEFT'' 510 500) 1 1 = [] \<and>
   add_redaction_box 100 50 100 80 1 1 = []"
proof -
  have h1: "py_int (min (if True then limit_bottom_left ex_geometry else limit_bottom_right ex_geometry) 9999)
      \<le> py_int (max (ceiling_y ex_geometry) 2500)"
    by (simp add: ex_geometry_def py_int_def)
  have ic: "int_coords (ex_obj 0 ''line'' ''LEFT'' 510 500) = (50, 510, 400, 500)"
    by (simp add: int_coords_def py_int_def)
  have h2: "case int_coords (ex_obj 0 ''line'' ''LEFT'' 510 500) of (a, b, c, d) \<Rightarrow> d \<le> b \<or> c \<le> a"
    by (simp add: ic)
  have h3: "(80::int) \<le> 50 \<or> (100::int) \<le> 100" by simp
  note t = degenerate_boxes_dropped
    [of True ex_geometry 9999 2500 "ex_obj 0 ''line'' ''LEFT'' 510 500" 1 1 80 50 100 100]
  from t h1 h2 h3 ic show ?thesis by simp
qed

lemma redact_zero_width_example:
  "redact default_config (\<lambda>pg. None)
     [\<lparr>i_start = Some (ex_obj 0 ''caption'' ''LEFT'' 100 200),
       i_end = Some (ex_obj 0 ''line'' ''LEFT'' 500 510)\<rparr>]
     [ex_obj 0 ''caption'' ''LEFT'' 100 200, ex_obj 0 ''line'' ''LEFT'' 500 510]
     [0 \<mapsto> (612, 792, 1700, 2200)]
     [0 \<mapsto> (100, 100, 900, 1600, 850)]
     [\<lparr>pending = [], burnt = [], apply_calls = 0\<rparr>] =
   Inr [\<lparr>pending = [],
         burnt = [TextWindow (36, 72, 36, 180),
                  RedactAnnot (18, 180, 144, 918 / 5) (1 / 5, 1 / 5, 1 / 5)],
         apply_calls = 1\<rparr>]"
proof -
  let ?c = "ex_obj 0 ''caption'' ''LEFT'' 100 200"
  let ?l = "ex_obj 0 ''line'' ''LEFT'' 500 510"
  let ?g = "page_geometry 0 [?c, ?l] 2200 [0 \<mapsto> (100, 100, 900, 1600, 850)] (9 / 25) (9 / 25)"
  have g: "?g = \<lparr>ceiling_y = 90, limit_bottom_left = 2140, limit_bottom_right = 2140,
      LEFT_X1 = 100, LEFT_X2 = 100, RIGHT_X1 = 900, RIGHT_X2 = 1600,
      scale_x = 9 / 25, scale_y = 9 / 25\<rparr>"
    by (simp add: page_geometry_def footnote_limits_def footnote_step_def header_ceiling_def
        column_bounds_def)
  have box: "do_column_box ?g 200 500 True = [TextWindow (36, 72, 36, 180)]"
    unfolding g by (simp add: do_column_box_def py_int_def Let_def)
  have body: "apply_body_redactions default_config
      [\<lparr>i_start = Some ?c, i_end = Some ?l\<rparr>] 0 [?c, ?l] 2200
      [0 \<mapsto> (100, 100, 900, 1600, 850)] (9 / 25) (9 / 25) = Inr [TextWindow (36, 72, 36, 180)]"
    unfolding apply_body_redactions_def
    by (simp add: apply_instruction_def default_config_def box Let_def)
  have obj: "apply_object_redactions default_config None [?c, ?l] (9 / 25) (9 / 25) =
      [RedactAnnot (18, 180, 144, 918 / 5) (1 / 5, 1 / 5, 1 / 5)]"
    by (simp add: apply_object_redactions_def object_box_def int_coords_def py_int_def
        add_redaction_box_def Let_def)
  have sc: "page_scale (612, 792, 1700, 2200) = Inr (9 / 25, 9 / 25)"
    by (simp add: page_scale_def)
  show ?thesis
    by (simp add: redact_def redact_page_def sc body obj apply_redactions_def Let_def)
qed

text \<open>
  The statement of claim C7 fails in two places. A column window of width zero
  (\<open>LEFT_X1 = LEFT_X2 = 100\<close>) and positive height is handed to the line redactor all
  the same: \<open>do_column_box\<close> tests the height only, where \<open>_add_redaction_box\<close> tests both.
  And a discrete-object box is never clamped: a line object at \<open>y\<close> from 10 to 20, above
  the ceiling of 90, is registered as it is.
\<close>

theorem degenerate_boxes_counterexample:
  "redact default_config (\<lambda>pg. None)
     [\<lparr>i_start = Some (ex_obj 0 ''caption'' ''LEFT'' 100 200),
       i_end = Some (ex_obj 0 ''line'' ''LEFT'' 500 510)\<rparr>]
     [ex_obj 0 ''caption'' ''LEFT'' 100 200, ex_obj 0 ''line'' ''LEFT'' 500 510]
     [0 \<mapsto> (612, 792, 1700, 2200)]
     [0 \<mapsto> (100, 100, 900, 1600, 850)]
     [\<lparr>pending = [], burnt = [], apply_calls = 0\<rparr>] =
   Inr [\<lparr>pending = [],
         burnt = [TextWindow (36, 72, 36, 180),
                  RedactAnnot (18, 180, 144, 918 / 5) (1 / 5, 1 / 5, 1 / 5)],
         apply_calls = 1\<rparr>] \<and>
   py_int (min (limit_bottom_left ex_geometry) 20) \<le> py_int (max (ceiling_y ex_geometry) 10) \<and>
   apply_object_redactions default_config None [ex_obj 0 ''line'' ''LEFT'' 10 20] 1 1 =
     [RedactAnnot (50, 10, 400, 20) (1 / 5, 1 / 5, 1 / 5)]"
proof -
  have b: "py_int (min (limit_bottom_left ex_geometry) 20) \<le> py_int (max (ceiling_y ex_geometry) 10)"
    by (simp add: ex_geometry_def py_int_def)
  have c: "apply_object_redactions default_config None [ex_obj 0 ''line'' ''LEFT'' 10 20] 1 1 =
     [RedactAnnot (50, 10, 400, 20) (1 / 5, 1 / 5, 1 / 5)]"
    by (simp add: apply_object_redactions_def object_box_def int_coords_def py_int_def
        add_redaction_box_def Let_def)
  from redact_zero_width_example b c show ?thesis by (intro conjI)
qed

lemma apply_instruction_returns:
  "i_start instr \<noteq> None \<Longrightarrow> i_end instr \<noteq> None \<Longrightarrow>
   \<exists>rs. apply_instruction cfg g instr page_idx = Inr rs"
  by (auto simp: apply_instruction_def Let_def)

lemma apply_instructions_returns:
  "list_all (\<lambda>i. i_start i \<noteq> None \<and> i_end i \<noteq> None) instrs \<Longrightarrow>
   \<exists>rs. apply_instructions cfg g instrs page_idx = Inr rs"
proof (induction instrs)
  case Nil
  show ?case by simp
next
  case (Cons i instrs)
  then obtain rs where "apply_instructions cfg g instrs page_idx = Inr rs" by auto
  moreover from Cons.prems obtain r where "apply_instruction cfg g i page_idx = Inr r"
    using apply_instruction_returns [of i cfg g page_idx] by auto
  ultimately show ?case by simp
qed

lemma redact_page_returns:
  assumes "list_all (\<lambda>i. i_start i \<noteq> None \<and> i_end i \<noteq> None) instrs"
    and "\<forall>pdf_w pdf_h img_w img_h. dims page_idx = Some (pdf_w, pdf_h, img_w, img_h) \<longrightarrow>
           img_w \<noteq> 0 \<and> img_h \<noteq> 0"
  shows "\<exists>pg'. redact_page cfg hr instrs objs dims cols page_idx pg = Inr pg'"
proof (cases "dims page_idx")
  case None
  then show ?thesis by (simp add: redact_page_def)
next
  case (Some d)
  obtain pdf_w pdf_h img_w img_h where d: "d = (pdf_w, pdf_h, img_w, img_h)"
    by (cases d) auto
  with Some assms(2) have nz: "img_w \<noteq> 0" "img_h \<noteq> 0" by auto
  from apply_instructions_returns [OF assms(1)]
  obtain body where "apply_body_redactions cfg instrs page_idx
      (filter (\<lambda>obj. page_index obj = page_idx) objs) img_h cols (pdf_w / img_w) (pdf_h / img_h) =
      Inr body"
    unfolding apply_body_redactions_def by blast
  with Some d nz show ?thesis
    by (simp add: redact_page_def page_scale_def Let_def)
qed

lemma redact_pages_returns:
  assumes "list_all (\<lambda>i. i_start i \<noteq> None \<and> i_end i \<noteq> None) instrs"
    and "\<forall>page_idx pdf_w pdf_h img_w img_h.
           dims page_idx = Some (pdf_w, pdf_h, img_w, img_h) \<longrightarrow> img_w \<noteq> 0 \<and> img_h \<noteq> 0"
  shows "\<exists>pages'. redact_pages cfg hr instrs objs dims cols k pages = Inr pages'"
proof (induction pages arbitrary: k)
  case Nil
  show ?case by simp
next
  case (Cons pg pgs)
  from redact_page_returns [OF assms(1), of dims k cfg hr objs cols pg] assms(2)
  obtain pg' where "redact_page cfg hr instrs objs dims cols k pg = Inr pg'" by blast
  moreover from Cons [of "k + 1"]
  obtain pgs' where "redact_pages cfg hr instrs objs dims cols (k + 1) pgs = Inr pgs'" by blast
  ultimately show ?case by simp
qed

lemma redact_returns:
  assumes "list_all (\<lambda>i. i_start i \<noteq> None \<and> i_end i \<noteq> None) instrs"
    and "\<forall>page_idx pdf_w pdf_h img_w img_h.
           dims page_idx = Some (pdf_w, pdf_h, img_w, img_h) \<longrightarrow> img_w \<noteq> 0 \<and> img_h \<noteq> 0"
  shows "\<exists>doc'. redact cfg hr instrs objs dims cols doc = Inr doc'"
  unfolding redact_def by (rule redact_pages_returns [OF assms])

lemma redact_pages_frame:
  "redact_pages cfg hr instrs objs dims cols k pages = Inr pages' \<Longrightarrow>
   length pages' = length pages \<and>
   (\<forall>i < length pages. dims (k + int i) = None \<longrightarrow> pages' ! i = pages ! i)"
proof (induction pages arbitrary: k pages')
  case Nil
  then show ?case by simp
next
  case (Cons pg pgs)
  from Cons.prems obtain pg' pgs' where
    pg: "redact_page cfg hr instrs objs dims cols k pg = Inr pg'" and
    pgs: "redact_pages cfg hr instrs objs dims cols (k + 1) pgs = Inr pgs'" and
    eq: "pages' = pg' # pgs'"
    by (auto split: sum.splits)
  from Cons.IH [OF pgs] have len: "length pgs' = length pgs"
    and fr: "\<forall>i < length pgs. dims (k + 1 + int i) = None \<longrightarrow> pgs' ! i = pgs ! i"
    by simp_all
  have hd: "dims k = None \<longrightarrow> pg' = pg"
    using pg by (auto simp: redact_page_def)
  show ?case
  proof (intro conjI allI impI)
    show "length pages' = length (pg # pgs)" using eq len by simp
  next
    fix i assume i: "i < length (pg # pgs)" and d: "dims (k + int i) = None"
    show "pages' ! i = (pg # pgs) ! i"
    proof (cases i)
      case 0
      with d hd eq show ?thesis by simp
    next
      case (Suc j)
      with i d have "j < length pgs" "dims (k + 1 + int j) = None" by (simp_all add: ac_simps)
      with fr have "pgs' ! j = pgs ! j" by blast
      with Suc eq show ?thesis by simp
    qed
  qed
qed


lemma redact_example:
  "redact default_config (\<lambda>pg. None)
     [\<lparr>i_start = Some (ex_obj 0 ''caption'' ''LEFT'' 100 200),
       i_end = Some (ex_obj 0 ''line'' ''LEFT'' 500 510)\<rparr>]
     [ex_obj 0 ''caption'' ''LEFT'' 100 200, ex_obj 0 ''line'' ''LEFT'' 500 510,
      ex_obj 1 ''line'' ''LEFT'' 300 310]
     [0 \<mapsto> (612, 792, 1700, 2200)] Map.empty [ex_page, ex_page] =
   Inr [\<lparr>pending = [],
         burnt = [TextWindow (54 / 5, 72, 1971 / 5, 180),
                  RedactAnnot (18, 180, 144, 918 / 5) (1 / 5, 1 / 5, 1 / 5)],
         apply_calls = 1\<rparr>,
        ex_page]"
proof -
  let ?c = "ex_obj 0 ''caption'' ''LEFT'' 100 200"
  let ?l = "ex_obj 0 ''line'' ''LEFT'' 500 510"
  let ?g = "page_geometry 0 [?c, ?l] 2200 Map.empty (9 / 25) (9 / 25)"
  have g: "?g = \<lparr>ceiling_y = 90, limit_bottom_left = 2140, limit_bottom_right = 2140,
      LEFT_X1 = 30, LEFT_X2 = 1095, RIGHT_X1 = 1105, RIGHT_X2 = 2170,
      scale_x = 9 / 25, scale_y = 9 / 25\<rparr>"
    by (simp add: page_geometry_def footnote_limits_def footnote_step_def header_ceiling_def
        column_bounds_def py_int_def)
  have box: "do_column_box ?g 200 500 True = [TextWindow (54 / 5, 72, 1971 / 5, 180)]"
    unfolding g by (simp add: do_column_box_def py_int_def Let_def)
  have body: "apply_body_redactions default_config
      [\<lparr>i_start = Some ?c, i_end = Some ?l\<rparr>] 0 [?c, ?l] 2200
      Map.empty (9 / 25) (9 / 25) = Inr [TextWindow (54 / 5, 72, 1971 / 5, 180)]"
    unfolding apply_body_redactions_def
    by (simp add: apply_instruction_def default_config_def box Let_def)
  have obj: "apply_object_redactions default_config None [?c, ?l] (9 / 25) (9 / 25) =
      [RedactAnnot (18, 180, 144, 918 / 5) (1 / 5, 1 / 5, 1 / 5)]"
    by (simp add: apply_object_redactions_def object_box_def int_coords_def py_int_def
        add_redaction_box_def Let_def)
  have sc: "page_scale (612, 792, 1700, 2200) = Inr (9 / 25, 9 / 25)"
    by (simp add: page_scale_def)
  show ?thesis
    by (simp add: redact_def redact_page_def sc body obj apply_redactions_def ex_page_def Let_def)
qed

text \<open>
  Claim C10. When \<open>redact\<close> returns, a page whose index is not a key of
  \<open>page_dimensions\<close> is exactly as it was: no body region and no object region is
  registered on it, and \<open>apply_redactions\<close> is not called on it.
\<close>

theorem redact_skips_pages_without_dimensions:
  assumes "redact cfg hr instrs objs page_dimensions cols doc = Inr doc'"
    and "i < length doc" and "page_dimensions (int i) = None"
  shows "length doc' = length doc \<and> doc' ! i = doc ! i"
  using redact_pages_frame [of cfg hr instrs objs page_dimensions cols 0 doc doc'] assms
  by (simp add: redact_def)


theorem redact_skips_pages_without_dimensions_witness:
  "redact default_config (\<lambda>pg. None)
     [\<lparr>i_start = Some (ex_obj 0 ''caption'' ''LEFT'' 100 200),
       i_end = Some (ex_obj 0 ''line'' ''LEFT'' 500 510)\<rparr>]
     [ex_obj 0 ''caption'' ''LEFT'' 100 200, ex_obj 0 ''line'' ''LEFT'' 500 510,
      ex_obj 1 ''line'' ''LEFT'' 300 310]
     [0 \<mapsto> (612, 792, 1700, 2200)] Map.empty [ex_page, ex_page] =
   Inr [\<lparr>pending = [],
         burnt = [TextWindow (54 / 5, 72, 1971 / 5, 180),
                  RedactAnnot (18, 180, 144, 918 / 5) (1 / 5, 1 / 5, 1 / 5)],
         apply_calls = 1\<rparr>,
        ex_page] \<and>
   (1::nat) < length [ex_page, ex_page] \<and>
   [0 \<mapsto> (612, 792, 1700, 2200 :: rat)] (int 1) = None \<and>
   [\<lparr>pending = [],
      burnt = [TextWindow (54 / 5, 72, 1971 / 5, 180),
               RedactAnnot (18, 180, 144, 918 / 5) (1 / 5, 1 / 5, 1 / 5)],
      apply_calls = 1\<rparr>,
    ex_page] ! 1 = [ex_page, ex_page] ! 1"
proof -
  have l: "(1::nat) < length [ex_page, ex_page]" by simp
  have d: "[0 \<mapsto> (612, 792, 1700, 2200 :: rat)] (int 1) = None" by simp
  from redact_skips_pages_without_dimensions [OF redact_example l d] redact_example l d
  show ?thesis by blast
qed

section \<open>Properties of the scale factors\<close>

text \<open>
  Claim C8, as the code has it. The geometry engine derives the scale factors of a page
  from its dimensions, as \<open>(pdf_w / img_w, pdf_h / img_h)\<close>, and \<open>redact_page\<close> applies
  exactly these. The opinion splitter does not read the page dimensions: it converts
  with the one factor \<open>72 / dpi\<close>, on both axes and for every page. The two agree exactly
  when \<open>img_w * 72 = pdf_w * dpi\<close> and \<open>img_h * 72 = pdf_h * dpi\<close>.
\<close>

theorem scale_factors:
  "(img_w \<noteq> 0 \<and> img_h \<noteq> 0 \<longrightarrow>
      page_scale (pdf_w, pdf_h, img_w, img_h) = Inr (pdf_w / img_w, pdf_h / img_h)) \<and>
   (page_dimensions page_idx = Some (pdf_w, pdf_h, img_w, img_h) \<and> img_w \<noteq> 0 \<and> img_h \<noteq> 0 \<longrightarrow>
      redact_page cfg hr instrs objs page_dimensions cols page_idx pg =
        (case apply_body_redactions cfg instrs page_idx
                (filter (\<lambda>obj. page_index obj = page_idx) objs) img_h cols
                (pdf_w / img_w) (pdf_h / img_h) of
           Inl err \<Rightarrow> Inl err
         | Inr body \<Rightarrow>
             Inr (apply_redactions
                    (pg\<lparr>pending := pending pg @ body @
                        apply_object_redactions cfg (hr page_idx)
                          (filter (\<lambda>obj. page_index obj = page_idx) objs)
                          (pdf_w / img_w) (pdf_h / img_h)\<rparr>)))) \<and>
   (dpi cfg \<noteq> 0 \<longrightarrow>
      splitter_scale cfg = Inr (72 / of_int (dpi cfg)) \<and>
      split_and_mask_opinions cfg page_rect spans cols hdrs ftrs =
        mask_opinions cfg (72 / of_int (dpi cfg)) page_rect cols hdrs ftrs spans) \<and>
   (img_w \<noteq> 0 \<and> img_h \<noteq> 0 \<and> dpi cfg \<noteq> 0 \<longrightarrow>
      (page_scale (pdf_w, pdf_h, img_w, img_h) =
         Inr (72 / of_int (dpi cfg), 72 / of_int (dpi cfg))) =
      (img_w * 72 = pdf_w * of_int (dpi cfg) \<and> img_h * 72 = pdf_h * of_int (dpi cfg)))"
proof -
  have a: "img_w \<noteq> 0 \<and> img_h \<noteq> 0 \<longrightarrow>
      page_scale (pdf_w, pdf_h, img_w, img_h) = Inr (pdf_w / img_w, pdf_h / img_h)"
    by (simp add: page_scale_def)
  have b: "page_dimensions page_idx = Some (pdf_w, pdf_h, img_w, img_h) \<and> img_w \<noteq> 0 \<and> img_h \<noteq> 0 \<longrightarrow>
      redact_page cfg hr instrs objs page_dimensions cols page_idx pg =
        (case apply_body_redactions cfg instrs page_idx
                (filter (\<lambda>obj. page_index obj = page_idx) objs) img_h cols
                (pdf_w / img_w) (pdf_h / img_h) of
           Inl err \<Rightarrow> Inl err
         | Inr body \<Rightarrow>
             Inr (apply_redactions
                    (pg\<lparr>pending := pending pg @ body @
                        apply_object_redactions cfg (hr page_idx)
                          (filter (\<lambda>obj. page_index obj = page_idx) objs)
                          (pdf_w / img_w) (pdf_h / img_h)\<rparr>)))"
    by (simp add: redact_page_def page_scale_def Let_def)
  have c: "dpi cfg \<noteq> 0 \<longrightarrow>
      splitter_scale cfg = Inr (72 / of_int (dpi cfg)) \<and>
      split_and_mask_opinions cfg page_rect spans cols hdrs ftrs =
        mask_opinions cfg (72 / of_int (dpi cfg)) page_rect cols hdrs ftrs spans"
    by (simp add: splitter_scale_def split_and_mask_opinions_def)
  have d: "img_w \<noteq> 0 \<and> img_h \<noteq> 0 \<and> dpi cfg \<noteq> 0 \<longrightarrow>
      (page_scale (pdf_w, pdf_h, img_w, img_h) =
         Inr (72 / of_int (dpi cfg), 72 / of_int (dpi cfg))) =
      (img_w * 72 = pdf_w * of_int (dpi cfg) \<and> img_h * 72 = pdf_h * of_int (dpi cfg))"
    by (auto simp: page_scale_def field_simps)
  from a b c d show ?thesis by (intro conjI)
qed

theorem scale_factors_witness:
  "page_scale (612, 792, 1700, 2200) = Inr (9 / 25, 9 / 25) \<and>
   splitter_scale default_config = Inr (9 / 25) \<and>
   (1700 * 72 = 612 * (of_int (dpi default_config) :: rat)) \<and>
   (2200 * 72 = 792 * (of_int (dpi default_config) :: rat))"
  using scale_factors [of 1700 2200 612 792 "Map.empty" 0 default_config]
  by (simp add: default_config_def)


text \<open>
  The statement of claim C8 for the splitter fails on a page of 595 by 842 points
  detected on a raster of 1653 by 2339 pixels, at 200 dpi: the per-page ratios are not
  \<open>72 / 200\<close>, and the start mask ends at \<open>120 * 72 / 200\<close>, not at \<open>120 * 842 / 2339\<close>.
\<close>

theorem splitter_scale_counterexample:
  "page_scale (595, 842, 1653, 2339) = Inr (595 / 1653, 842 / 2339) \<and>
   splitter_scale default_config = Inr (9 / 25) \<and>
   (595 / 1653 :: rat) \<noteq> 9 / 25 \<and> (842 / 2339 :: rat) \<noteq> 9 / 25 \<and>
   split_and_mask_opinions default_config (\<lambda>pg. (595, 842))
     [(ex_span 1 (ex_obj 0 ''caption'' ''LEFT'' 120 140) (ex_obj 0 ''Key'' ''LEFT'' 400 420))
        \<lparr>sp_case_name := Some ''0007-01''\<rparr>]
     Map.empty Map.empty Map.empty =
   Inr [\<lparr>mo_case_name = ''0007-01'', mo_from_page = 0, mo_to_page = 0,
         mo_start_masks = [RedactAnnot (0, 2, 595 / 2, 216 / 5) (1, 1, 1),
                           RedactAnnot (595 / 2, 2, 595, 842) (1, 1, 1)],
         mo_end_masks = [RedactAnnot (0, 756 / 5, 595 / 2, 842) (1, 1, 1),
                         RedactAnnot (595 / 2, 2, 595, 842) (1, 1, 1)]\<rparr>] \<and>
   (120 * (842 / 2339) :: rat) \<noteq> 216 / 5"
proof -
  have sc: "splitter_scale default_config = Inr (9 / 25)"
    by (simp add: splitter_scale_def default_config_def)
  have m: "apply_opinion_masking default_config 0 0 120 420 ''LEFT'' ''LEFT''
       Map.empty Map.empty Map.empty (9 / 25) (595, 842) (595, 842) =
     ([RedactAnnot (0, 2, 595 / 2, 216 / 5) (1, 1, 1),
       RedactAnnot (595 / 2, 2, 595, 842) (1, 1, 1)],
      [RedactAnnot (0, 756 / 5, 595 / 2, 842) (1, 1, 1),
       RedactAnnot (595 / 2, 2, 595, 842) (1, 1, 1)])"
    by (simp add: apply_opinion_masking_def get_split_pt_def get_header_pt_def get_footer_pt_def
        safe_redact_def default_config_def Let_def)
  have sp: "split_and_mask_opinions default_config (\<lambda>pg. (595, 842))
     [(ex_span 1 (ex_obj 0 ''caption'' ''LEFT'' 120 140) (ex_obj 0 ''Key'' ''LEFT'' 400 420))
        \<lparr>sp_case_name := Some ''0007-01''\<rparr>]
     Map.empty Map.empty Map.empty =
   Inr [\<lparr>mo_case_name = ''0007-01'', mo_from_page = 0, mo_to_page = 0,
         mo_start_masks = [RedactAnnot (0, 2, 595 / 2, 216 / 5) (1, 1, 1),
                           RedactAnnot (595 / 2, 2, 595, 842) (1, 1, 1)],
         mo_end_masks = [RedactAnnot (0, 756 / 5, 595 / 2, 842) (1, 1, 1),
                         RedactAnnot (595 / 2, 2, 595, 842) (1, 1, 1)]\<rparr>]"
    by (simp add: split_and_mask_opinions_def sc mask_opinion_def ex_span_def m Let_def)
  have ps: "page_scale (595, 842, 1653, 2339) = Inr (595 / 1653, 842 / 2339)"
    by (simp add: page_scale_def)
  have ne: "(595 / 1653 :: rat) \<noteq> 9 / 25" "(842 / 2339 :: rat) \<noteq> 9 / 25"
    "(120 * (842 / 2339) :: rat) \<noteq> 216 / 5"
    by simp_all
  from ps sc ne sp show ?thesis by (intro conjI)
qed


end
